theory Spec2Isabelle
  imports Complex_Main
begin

section \<open>JavaScript values\<close>

text \<open>
  The dashboard (local variant \<^verbatim>\<open>src/unnamed/part_006\<close>, remote variant
  \<^verbatim>\<open>src/unnamed/part_007\<close>) is TypeScript that handles untyped values: whatever
  \<^verbatim>\<open>JSON.parse\<close> read from local storage.  A value is modelled as a tree.

  A number is a double.  Its finite values are modelled as rationals; the three
  non-finite doubles are constructors of their own.  Addition is exact as long as the
  result stays inside the double range and overflows to an infinity beyond it, as
  IEEE-754 addition with round-to-nearest does (everything of magnitude
  \<open>2^1024 - 2^970\<close> or more rounds to an infinity).  Rounding of a finite result to the
  nearest double and the sign of zero are not modelled.
\<close>

datatype jsnum = Fin rat | NaN | PosInf | NegInf

definition overflow_bound :: rat where
  "overflow_bound = 2 ^ 1024 - 2 ^ 970"

definition round_overflow :: "rat \<Rightarrow> jsnum" where
  "round_overflow x =
     (if overflow_bound \<le> x then PosInf
      else if x \<le> - overflow_bound then NegInf
      else Fin x)"

text \<open>The operator \<^verbatim>\<open>+\<close> on two numbers.\<close>

fun js_add :: "jsnum \<Rightarrow> jsnum \<Rightarrow> jsnum" where
  "js_add (Fin a) (Fin b) = round_overflow (a + b)"
| "js_add NaN y = NaN"
| "js_add x NaN = NaN"
| "js_add PosInf NegInf = NaN"
| "js_add NegInf PosInf = NaN"
| "js_add PosInf y = PosInf"
| "js_add x PosInf = PosInf"
| "js_add NegInf y = NegInf"
| "js_add x NegInf = NegInf"

text \<open>\<^verbatim>\<open>Number.isFinite\<close>, \<^verbatim>\<open>Math.max\<close> and \<^verbatim>\<open>Math.min\<close> of two numbers.\<close>

fun isFinite :: "jsnum \<Rightarrow> bool" where
  "isFinite (Fin a) = True"
| "isFinite x = False"

fun Math_max :: "jsnum \<Rightarrow> jsnum \<Rightarrow> jsnum" where
  "Math_max (Fin a) (Fin b) = Fin (max a b)"
| "Math_max NaN y = NaN"
| "Math_max x NaN = NaN"
| "Math_max PosInf y = PosInf"
| "Math_max x PosInf = PosInf"
| "Math_max NegInf y = y"
| "Math_max x NegInf = x"

fun Math_min :: "jsnum \<Rightarrow> jsnum \<Rightarrow> jsnum" where
  "Math_min (Fin a) (Fin b) = Fin (min a b)"
| "Math_min NaN y = NaN"
| "Math_min x NaN = NaN"
| "Math_min NegInf y = NegInf"
| "Math_min x NegInf = NegInf"
| "Math_min PosInf y = y"
| "Math_min x PosInf = x"

text \<open>
  An object is the list of its own properties (the first binding of a name is the
  one a read finds); an array is the list of its elements.
\<close>

datatype jsval =
    JUndefined
  | JNull
  | JBool bool
  | JNum jsnum
  | JStr string
  | JArr "jsval list"
  | JObj "(string \<times> jsval) list"

text \<open>\<^verbatim>\<open>typeof v\<close>; functions, symbols and bigints are not values of the model.\<close>

fun typeof :: "jsval \<Rightarrow> string" where
  "typeof JUndefined = ''undefined''"
| "typeof JNull = ''object''"
| "typeof (JBool b) = ''boolean''"
| "typeof (JNum n) = ''number''"
| "typeof (JStr s) = ''string''"
| "typeof (JArr xs) = ''object''"
| "typeof (JObj ps) = ''object''"

text \<open>The truth value of \<open>v\<close> in a condition (\<^verbatim>\<open>!v\<close> is its negation).\<close>

fun truthy :: "jsval \<Rightarrow> bool" where
  "truthy JUndefined = False"
| "truthy JNull = False"
| "truthy (JBool b) = b"
| "truthy (JNum n) = (n \<noteq> Fin 0 \<and> n \<noteq> NaN)"
| "truthy (JStr s) = (s \<noteq> [])"
| "truthy (JArr xs) = True"
| "truthy (JObj ps) = True"

fun Array_isArray :: "jsval \<Rightarrow> bool" where
  "Array_isArray (JArr xs) = True"
| "Array_isArray v = False"

text \<open>
  The read \<^verbatim>\<open>v.k\<close> of a property.  The code reads only the names
  \<^verbatim>\<open>id\<close>, \<^verbatim>\<open>paper\<close>, \<^verbatim>\<open>mcq\<close>, \<^verbatim>\<open>essay\<close>, \<^verbatim>\<open>total\<close>,
  \<^verbatim>\<open>completion\<close>, \<^verbatim>\<open>name\<close>, \<^verbatim>\<open>exams\<close>, \<^verbatim>\<open>subjects\<close> and
  \<^verbatim>\<open>activeSubjectId\<close>, none of which an array or a prototype defines, and it reads
  them only from values that passed its \<^verbatim>\<open>typeof v === "object"\<close> test.
\<close>

fun getProp :: "jsval \<Rightarrow> string \<Rightarrow> jsval" where
  "getProp (JObj ps) k = (case map_of ps k of Some v \<Rightarrow> v | None \<Rightarrow> JUndefined)"
| "getProp v k = JUndefined"

text \<open>The operator \<^verbatim>\<open>a ?? b\<close>.\<close>

definition coalesce :: "jsval \<Rightarrow> jsval \<Rightarrow> jsval" where
  "coalesce a b = (if a = JUndefined \<or> a = JNull then b else a)"

subsection \<open>Strings\<close>

text \<open>
  A string is the list of its code units; HOL characters cover the code units below
  256.  \<^verbatim>\<open>String.prototype.trim\<close> strips white space and line terminators from both
  ends: of the code units below 256 these are TAB, LF, VT, FF, CR, SP and NBSP.
\<close>

definition isWhiteSpace :: "char \<Rightarrow> bool" where
  "isWhiteSpace c =
     (c \<in> set [CHR 0x09, CHR 0x0A, CHR 0x0B, CHR 0x0C, CHR 0x0D, CHR 0x20, CHR 0xA0])"

definition trim :: "string \<Rightarrow> string" where
  "trim s = rev (dropWhile isWhiteSpace (rev (dropWhile isWhiteSpace s)))"

text \<open>
  The test \<^verbatim>\<open>typeof v === "string" && v.trim().length > 0\<close> of the validity checks,
  which is also the test \<^verbatim>\<open>typeof v === "string" && v.trim()\<close> of the sanitizers
  (a string is truthy when it is not empty).
\<close>

fun nonblank_string :: "jsval \<Rightarrow> bool" where
  "nonblank_string (JStr s) = (0 < length (trim s))"
| "nonblank_string v = False"

text \<open>The decimal text of an array index, as a template literal prints it.\<close>

definition digitChar :: "nat \<Rightarrow> char" where
  "digitChar d = ''0123456789'' ! d"

fun string_of_nat :: "nat \<Rightarrow> string" where
  "string_of_nat n =
     (if n < 10 then [digitChar n] else string_of_nat (n div 10) @ [digitChar (n mod 10)])"

declare string_of_nat.simps [simp del]


section \<open>The host environment\<close>

text \<open>
  What the code asks of the JavaScript engine rather than computes itself is a
  parameter of the model, so that a theorem stated for every \<open>rt\<close> holds whatever the
  engine answers:
  \<^item> \<open>StringToNumber\<close>: \<^verbatim>\<open>Number(s)\<close> of a string;
  \<^item> \<open>NumberToString\<close>: \<^verbatim>\<open>String(n)\<close> of a number;
  \<^item> \<open>randomId k\<close>: the text that \<^verbatim>\<open>crypto.randomUUID()\<close>, or the
    \<^verbatim>\<open>Math.random\<close> fallback, gives the \<open>k\<close>-th time \<^verbatim>\<open>createId\<close> runs;
  \<^item> \<open>DateParse\<close>: the time value of \<^verbatim>\<open>new Date(s)\<close> in milliseconds since the
    epoch, \<open>None\<close> for an invalid date;
  \<^item> \<open>timezoneOffset\<close>: the milliseconds local time is ahead of UTC.  The zone is
    taken to have a fixed offset (no daylight-saving change in the days looked at);
  \<^item> \<open>weekdayLabel\<close>: \<^verbatim>\<open>toLocaleDateString(undefined, {weekday: "short"})\<close>.
\<close>

record runtime =
  StringToNumber :: "string \<Rightarrow> jsnum"
  NumberToString :: "jsnum \<Rightarrow> string"
  randomId :: "nat \<Rightarrow> string"
  DateParse :: "string \<Rightarrow> int option"
  timezoneOffset :: int
  weekdayLabel :: "int \<Rightarrow> string"

text \<open>The exceptions the modelled code can meet.\<close>

datatype js_error = TypeError | SyntaxError

text \<open>
  \<^verbatim>\<open>String(v)\<close> and \<^verbatim>\<open>Number(v)\<close>, as ECMA-262 defines them for the values of the
  model.  An object or array is first converted to a primitive.  A value read from JSON
  has no callable property of its own, so only inherited methods can do that:
  \<^item> an array inherits \<^verbatim>\<open>Array.prototype.toString\<close>, which joins the strings of
    its elements with commas, an \<^verbatim>\<open>undefined\<close> or \<^verbatim>\<open>null\<close> element giving the
    empty string;
  \<^item> an object inherits \<^verbatim>\<open>Object.prototype.toString\<close>, which answers
    \<^verbatim>\<open>[object Object]\<close>, unless it has a property \<^verbatim>\<open>toString\<close> of its own: that
    one is found instead, it is not callable, \<^verbatim>\<open>valueOf\<close> (its own, not callable, or
    the inherited one, which answers the object itself) gives no primitive either, and the
    conversion throws a TypeError.
\<close>

fun join_comma :: "string list \<Rightarrow> string" where
  "join_comma [] = []"
| "join_comma [s] = s"
| "join_comma (s # t # rest) = s @ '','' @ join_comma (t # rest)"

fun ToString :: "runtime \<Rightarrow> jsval \<Rightarrow> js_error + string"
  and elementStrings :: "runtime \<Rightarrow> jsval list \<Rightarrow> js_error + string list" where
  "ToString rt JUndefined = Inr ''undefined''"
| "ToString rt JNull = Inr ''null''"
| "ToString rt (JBool b) = Inr (if b then ''true'' else ''false'')"
| "ToString rt (JNum n) = Inr (NumberToString rt n)"
| "ToString rt (JStr s) = Inr s"
| "ToString rt (JArr xs) =
     (case elementStrings rt xs of Inl err \<Rightarrow> Inl err | Inr ss \<Rightarrow> Inr (join_comma ss))"
| "ToString rt (JObj ps) =
     (if map_of ps ''toString'' \<noteq> None then Inl TypeError else Inr ''[object Object]'')"
| "elementStrings rt [] = Inr []"
| "elementStrings rt (x # xs) =
     (case (if x = JUndefined \<or> x = JNull then Inr [] else ToString rt x) of
        Inl err \<Rightarrow> Inl err
      | Inr s \<Rightarrow>
          (case elementStrings rt xs of Inl err \<Rightarrow> Inl err | Inr ss \<Rightarrow> Inr (s # ss)))"

fun ToNumber :: "runtime \<Rightarrow> jsval \<Rightarrow> js_error + jsnum" where
  "ToNumber rt JUndefined = Inr NaN"
| "ToNumber rt JNull = Inr (Fin 0)"
| "ToNumber rt (JBool b) = Inr (if b then Fin 1 else Fin 0)"
| "ToNumber rt (JNum n) = Inr n"
| "ToNumber rt (JStr s) = Inr (StringToNumber rt s)"
| "ToNumber rt (JArr xs) =
     (case ToString rt (JArr xs) of Inl err \<Rightarrow> Inl err | Inr s \<Rightarrow> Inr (StringToNumber rt s))"
| "ToNumber rt (JObj ps) =
     (case ToString rt (JObj ps) of Inl err \<Rightarrow> Inl err | Inr s \<Rightarrow> Inr (StringToNumber rt s))"

text \<open>
  \<^verbatim>\<open>createId(prefix)\<close> (part_006, lines 74-79).  The state threaded through the
  code that creates identifiers is the number of identifiers created so far.
\<close>

definition createId :: "runtime \<Rightarrow> string \<Rightarrow> nat \<Rightarrow> string \<times> nat" where
  "createId rt prefix k = (prefix @ ''-'' @ randomId rt k, Suc k)"

section \<open>The state normalizer (local variant, part_006)\<close>

definition exam_object :: "string \<Rightarrow> string \<Rightarrow> jsnum \<Rightarrow> jsnum \<Rightarrow> jsnum \<Rightarrow> jsnum \<Rightarrow> jsval" where
  "exam_object i p m e t c =
     JObj [(''id'', JStr i), (''paper'', JStr p), (''mcq'', JNum m), (''essay'', JNum e),
           (''total'', JNum t), (''completion'', JNum c)]"

definition subject_object :: "string \<Rightarrow> string \<Rightarrow> jsval list \<Rightarrow> jsval" where
  "subject_object i n exams =
     JObj [(''id'', JStr i), (''name'', JStr n), (''exams'', JArr exams)]"

definition state_object :: "jsval list \<Rightarrow> jsval \<Rightarrow> jsval" where
  "state_object subjects active =
     JObj [(''subjects'', JArr subjects), (''activeSubjectId'', active)]"

definition DEFAULT_EXAMS :: "jsval list" where
  "DEFAULT_EXAMS =
     [exam_object ''exam-1'' ''2025 S2 MAIN PAPER 03'' (Fin 15) (Fin 0) (Fin 15) (Fin 96),
      exam_object ''exam-2'' ''2025 FINAL PAPER 02'' (Fin 8) (Fin 1) (Fin 9) (Fin 82),
      exam_object ''exam-3'' ''2025 FINAL PAPER 04'' (Fin 13) (Fin 1) (Fin 14) (Fin 88),
      exam_object ''exam-4'' ''2025 FINAL PAPER 05'' (Fin 12) (Fin 0) (Fin 12) (Fin 74)]"

text \<open>\<^verbatim>\<open>cloneExam\<close> copies the properties into a new object: the same value.\<close>

definition cloneExam :: "jsval \<Rightarrow> jsval" where
  "cloneExam exam = exam"

definition isValidExam :: "jsval \<Rightarrow> bool" where
  "isValidExam raw =
     (truthy raw \<and> typeof raw = ''object'' \<and>
      nonblank_string (getProp raw ''id'') \<and>
      nonblank_string (getProp raw ''paper'') \<and>
      typeof (getProp raw ''mcq'') = ''number'' \<and>
      typeof (getProp raw ''essay'') = ''number'' \<and>
      typeof (getProp raw ''total'') = ''number'' \<and>
      typeof (getProp raw ''completion'') = ''number'')"

definition isValidSubject :: "jsval \<Rightarrow> bool" where
  "isValidSubject raw =
     (truthy raw \<and> typeof raw = ''object'' \<and>
      nonblank_string (getProp raw ''id'') \<and>
      nonblank_string (getProp raw ''name'') \<and>
      (case getProp raw ''exams'' of
         JArr exams \<Rightarrow> list_all isValidExam exams
       | other \<Rightarrow> False))"

text \<open>
  In the last line both sides of \<^verbatim>\<open>===\<close> are strings: the subject passed
  \<^verbatim>\<open>isValidSubject\<close> and \<^verbatim>\<open>activeSubjectId\<close> passed the \<^verbatim>\<open>typeof\<close> test.
\<close>

definition isValidAppState :: "jsval \<Rightarrow> bool" where
  "isValidAppState raw =
     (if \<not> truthy raw \<or> typeof raw \<noteq> ''object'' \<or> Array_isArray raw then False
      else case getProp raw ''subjects'' of
        JArr subjects \<Rightarrow>
          if length subjects = 0 then False
          else if typeof (getProp raw ''activeSubjectId'') \<noteq> ''string'' then False
          else if \<not> list_all isValidSubject subjects then False
          else list_ex (\<lambda>subject. getProp subject ''id'' = getProp raw ''activeSubjectId'')
                 subjects
      | other \<Rightarrow> False)"

definition createDefaultState :: "runtime \<Rightarrow> nat \<Rightarrow> jsval \<times> nat" where
  "createDefaultState rt k =
     (let (subjectId, k1) = createId rt ''subject'' k
      in (state_object [subject_object subjectId ''Physics'' (map cloneExam DEFAULT_EXAMS)]
            (JStr subjectId), k1))"

text \<open>
  \<^verbatim>\<open>sanitizeExam(raw, index)\<close> (lines 189-217); \<open>None\<close> is the source's
  \<^verbatim>\<open>null\<close>, and \<open>Inl\<close> an exception that one of the four \<^verbatim>\<open>Number(...)\<close> calls
  throws.  The identifier is created last, and only when the raw one is unusable.
\<close>

definition sanitizeExam ::
  "runtime \<Rightarrow> jsval \<Rightarrow> nat \<Rightarrow> nat \<Rightarrow> js_error + (jsval option \<times> nat)" where
  "sanitizeExam rt raw index k =
     (if \<not> truthy raw \<or> typeof raw \<noteq> ''object'' then Inr (None, k)
      else
        let paper = (case getProp raw ''paper'' of
                       JStr s \<Rightarrow> if trim s \<noteq> [] then trim s
                                 else ''Paper '' @ string_of_nat (index + 1)
                     | other \<Rightarrow> ''Paper '' @ string_of_nat (index + 1))
        in
        case ToNumber rt (coalesce (getProp raw ''mcq'') (JNum (Fin 0))) of
          Inl err \<Rightarrow> Inl err
        | Inr mcqValue \<Rightarrow>
        case ToNumber rt (coalesce (getProp raw ''essay'') (JNum (Fin 0))) of
          Inl err \<Rightarrow> Inl err
        | Inr essayValue \<Rightarrow>
        case ToNumber rt (coalesce (getProp raw ''total'') (JNum (js_add mcqValue essayValue))) of
          Inl err \<Rightarrow> Inl err
        | Inr totalValue \<Rightarrow>
        case ToNumber rt (coalesce (getProp raw ''completion'') (JNum (Fin 0))) of
          Inl err \<Rightarrow> Inl err
        | Inr completionValue \<Rightarrow>
            let mcq = (if isFinite mcqValue then mcqValue else Fin 0);
                essay = (if isFinite essayValue then essayValue else Fin 0);
                total = (if isFinite totalValue then totalValue else js_add mcq essay);
                completion = (if isFinite completionValue
                              then Math_min (Fin 100) (Math_max (Fin 0) completionValue)
                              else Fin 0);
                (ident, k1) = (case getProp raw ''id'' of
                                 JStr s \<Rightarrow> if trim s \<noteq> [] then (s, k)
                                           else createId rt ''exam'' k
                               | other \<Rightarrow> createId rt ''exam'' k)
            in Inr (Some (exam_object ident paper mcq essay total completion), k1))"

text \<open>
  \<^verbatim>\<open>xs.map((exam, index) => sanitizeExam(exam, index)).filter(Boolean)\<close>: the
  elements are sanitized from left to right, the first exception ends the loop, and the
  \<^verbatim>\<open>null\<close> results are dropped.
\<close>

fun sanitizeExams ::
  "runtime \<Rightarrow> jsval list \<Rightarrow> nat \<Rightarrow> nat \<Rightarrow> js_error + (jsval list \<times> nat)" where
  "sanitizeExams rt [] index k = Inr ([], k)"
| "sanitizeExams rt (raw # rest) index k =
     (case sanitizeExam rt raw index k of
        Inl err \<Rightarrow> Inl err
      | Inr (sanitized, k1) \<Rightarrow>
          (case sanitizeExams rt rest (index + 1) k1 of
             Inl err \<Rightarrow> Inl err
           | Inr (others, k2) \<Rightarrow>
               Inr (case sanitized of None \<Rightarrow> others | Some exam \<Rightarrow> exam # others, k2)))"

definition sanitizeSubject ::
  "runtime \<Rightarrow> jsval \<Rightarrow> nat \<Rightarrow> nat \<Rightarrow> js_error + (jsval option \<times> nat)" where
  "sanitizeSubject rt raw index k =
     (if \<not> truthy raw \<or> typeof raw \<noteq> ''object'' then Inr (None, k)
      else
        let name = (case getProp raw ''name'' of
                      JStr s \<Rightarrow> if trim s \<noteq> [] then trim s
                                else ''Subject '' @ string_of_nat (index + 1)
                    | other \<Rightarrow> ''Subject '' @ string_of_nat (index + 1));
            (ident, k1) = (case getProp raw ''id'' of
                             JStr s \<Rightarrow> if trim s \<noteq> [] then (s, k) else createId rt ''subject'' k
                           | other \<Rightarrow> createId rt ''subject'' k);
            examsArray = (case getProp raw ''exams'' of JArr xs \<Rightarrow> xs | other \<Rightarrow> [])
        in case sanitizeExams rt examsArray 0 k1 of
             Inl err \<Rightarrow> Inl err
           | Inr (exams, k2) \<Rightarrow> Inr (Some (subject_object ident name exams), k2))"

text \<open>
  The \<^verbatim>\<open>forEach\<close> loop of \<^verbatim>\<open>normalizeStoredValue\<close> (lines 247-252), which pushes
  every subject that \<^verbatim>\<open>sanitizeSubject\<close> did not answer \<^verbatim>\<open>null\<close> for.
\<close>

fun sanitizeSubjects ::
  "runtime \<Rightarrow> jsval list \<Rightarrow> nat \<Rightarrow> nat \<Rightarrow> js_error + (jsval list \<times> nat)" where
  "sanitizeSubjects rt [] index k = Inr ([], k)"
| "sanitizeSubjects rt (raw # rest) index k =
     (case sanitizeSubject rt raw index k of
        Inl err \<Rightarrow> Inl err
      | Inr (sanitized, k1) \<Rightarrow>
          (case sanitizeSubjects rt rest (index + 1) k1 of
             Inl err \<Rightarrow> Inl err
           | Inr (others, k2) \<Rightarrow>
               Inr (case sanitized of None \<Rightarrow> others | Some subject \<Rightarrow> subject # others, k2)))"

text \<open>
  \<^verbatim>\<open>normalizeStoredValue(value)\<close> (lines 238-291).  The result is a value and the
  number of identifiers created so far, or the exception a sanitizer threw.  The first
  branch returns the argument itself.
\<close>

definition normalizeStoredValue ::
  "runtime \<Rightarrow> jsval \<Rightarrow> nat \<Rightarrow> js_error + (jsval \<times> nat)" where
  "normalizeStoredValue rt v k =
     (if isValidAppState v then Inr (v, k)
      else if truthy v \<and> typeof v = ''object'' \<and> \<not> Array_isArray v \<and>
              Array_isArray (getProp v ''subjects'') then
        (case sanitizeSubjects rt (case getProp v ''subjects'' of JArr xs \<Rightarrow> xs | other \<Rightarrow> [])
                0 k of
           Inl err \<Rightarrow> Inl err
         | Inr (sanitizedSubjects, k1) \<Rightarrow>
             (case sanitizedSubjects of
                [] \<Rightarrow> Inr (createDefaultState rt k1)
              | first # others \<Rightarrow>
                  let activeSubjectId =
                        (if nonblank_string (getProp v ''activeSubjectId'')
                         then getProp v ''activeSubjectId''
                         else getProp first ''id'');
                      activeSubjectId2 =
                        (if \<not> list_ex (\<lambda>subject. getProp subject ''id'' = activeSubjectId)
                                 sanitizedSubjects
                         then getProp first ''id''
                         else activeSubjectId)
                  in Inr (state_object sanitizedSubjects activeSubjectId2, k1)))
      else case v of
        JArr xs \<Rightarrow>
          (let (subjectId, k1) = createId rt ''subject'' k
           in case sanitizeExams rt xs 0 k1 of
                Inl err \<Rightarrow> Inl err
              | Inr (exams, k2) \<Rightarrow>
                  Inr (state_object [subject_object subjectId ''Physics'' exams]
                         (JStr subjectId), k2))
      | other \<Rightarrow> Inr (createDefaultState rt k))"

section \<open>The JSON round trip\<close>

text \<open>
  \<^verbatim>\<open>JSON.parse(JSON.stringify(v))\<close>, which the engine provides, as a function on
  values: a number that is not finite is written as \<^verbatim>\<open>null\<close>; an
  \<^verbatim>\<open>undefined\<close> array element is written as \<^verbatim>\<open>null\<close>; a property
  whose value is \<^verbatim>\<open>undefined\<close> is left out; \<^verbatim>\<open>JSON.stringify(undefined)\<close> is
  \<^verbatim>\<open>undefined\<close>, which \<^verbatim>\<open>JSON.parse\<close> rejects with a SyntaxError (the result
  \<open>None\<close>).
\<close>

primrec json_copy :: "jsval \<Rightarrow> jsval" where
  "json_copy JUndefined = JUndefined"
| "json_copy JNull = JNull"
| "json_copy (JBool b) = JBool b"
| "json_copy (JNum n) = (if isFinite n then JNum n else JNull)"
| "json_copy (JStr s) = JStr s"
| "json_copy (JArr xs) =
     JArr (map (\<lambda>v. if v = JUndefined then JNull else v) (map json_copy xs))"
| "json_copy (JObj ps) =
     JObj (filter (\<lambda>p. snd p \<noteq> JUndefined) (map (map_prod id json_copy) ps))"

definition json_roundtrip :: "jsval \<Rightarrow> jsval option" where
  "json_roundtrip v = (if v = JUndefined then None else Some (json_copy v))"

text \<open>
  The values JSON text can hold: no \<^verbatim>\<open>undefined\<close> and no number that is not finite,
  at any depth.
\<close>

primrec json_representable :: "jsval \<Rightarrow> bool" where
  "json_representable JUndefined = False"
| "json_representable JNull = True"
| "json_representable (JBool b) = True"
| "json_representable (JNum n) = isFinite n"
| "json_representable (JStr s) = True"
| "json_representable (JArr xs) = list_all id (map json_representable xs)"
| "json_representable (JObj ps) = list_all snd (map (map_prod id json_representable) ps)"

section \<open>The payload builder\<close>

text \<open>
  \<^verbatim>\<open>prepareExamPayload(form)\<close> of the local variant (part_006, lines 315-341).
  The form holds the text of the input fields; \<open>None\<close> is \<^verbatim>\<open>null\<close>.
\<close>

record ExamFormState =
  form_paper :: string
  form_mcq :: string
  form_essay :: string
  form_total :: string
  form_completion :: string

record ExamPayload =
  paper :: string
  mcq :: jsnum
  essay :: jsnum
  total :: jsnum
  completion :: jsnum

definition prepareExamPayload :: "runtime \<Rightarrow> ExamFormState \<Rightarrow> ExamPayload option" where
  "prepareExamPayload rt form =
     (let trimmed = trim (form_paper form) in
      if trimmed = [] then None
      else
        let mcqValue = StringToNumber rt (form_mcq form);
            essayValue = StringToNumber rt (form_essay form);
            totalInput = (if form_total form \<noteq> [] then StringToNumber rt (form_total form)
                          else js_add mcqValue essayValue);
            completionValue = StringToNumber rt (form_completion form);
            mcqOut = (if isFinite mcqValue then Math_max (Fin 0) mcqValue else Fin 0);
            essayOut = (if isFinite essayValue then Math_max (Fin 0) essayValue else Fin 0);
            totalCandidate = (if isFinite totalInput then totalInput else js_add mcqOut essayOut);
            totalOut = Math_max (Fin 0) totalCandidate;
            completionOut = (if isFinite completionValue
                             then Math_min (Fin 100) (Math_max (Fin 0) completionValue)
                             else Fin 0)
        in Some \<lparr>paper = trimmed, mcq = mcqOut, essay = essayOut, total = totalOut,
                  completion = completionOut\<rparr>)"

text \<open>
  \<^verbatim>\<open>prepareExamPayload(form)\<close> of the remote variant (part_007, lines 191-215),
  whose form has no \<^verbatim>\<open>total\<close> field.
\<close>

record RemoteExamFormState =
  rform_paper :: string
  rform_mcq :: string
  rform_essay :: string
  rform_completion :: string

definition prepareExamPayload_remote :: "runtime \<Rightarrow> RemoteExamFormState \<Rightarrow> ExamPayload option" where
  "prepareExamPayload_remote rt form =
     (let trimmed = trim (rform_paper form) in
      if trimmed = [] then None
      else
        let mcqValue = StringToNumber rt (rform_mcq form);
            essayValue = StringToNumber rt (rform_essay form);
            completionValue = StringToNumber rt (rform_completion form);
            mcqOut = (if isFinite mcqValue then Math_max (Fin 0) mcqValue else Fin 0);
            essayOut = (if isFinite essayValue then Math_max (Fin 0) essayValue else Fin 0);
            totalOut = Math_max (Fin 0) (js_add mcqOut essayOut);
            completionOut = (if isFinite completionValue
                             then Math_min (Fin 100) (Math_max (Fin 0) completionValue)
                             else Fin 0)
        in Some \<lparr>paper = trimmed, mcq = mcqOut, essay = essayOut, total = totalOut,
                  completion = completionOut\<rparr>)"

section \<open>The analytics aggregator (remote variant, part_007)\<close>

text \<open>
  A \<^verbatim>\<open>Date\<close> is its time value, the milliseconds since the epoch.  The durations
  come from an \<^verbatim>\<open>integer\<close> column of the backend (supabase/schema.sql) and are
  modelled as integers.
\<close>

record FocusEntry =
  entry_id :: string
  timestamp :: string
  duration :: int

record ParsedFocusEntry = FocusEntry +
  date :: int

record Bucket =
  label :: string
  totalSeconds :: int

record ProductivityStats =
  day_totalSeconds :: int
  day_entries :: "ParsedFocusEntry list"
  week_totalSeconds :: int
  week_breakdown :: "Bucket list"
  month_totalSeconds :: int
  month_breakdown :: "Bucket list"
  recentSessions :: "(int \<times> int) list"

definition msPerDay :: int where
  "msPerDay = 24 * 60 * 60 * 1000"

text \<open>\<^verbatim>\<open>getStartOfDay(date)\<close>: \<^verbatim>\<open>setHours(0, 0, 0, 0)\<close> on a copy.\<close>

definition getStartOfDay :: "runtime \<Rightarrow> int \<Rightarrow> int" where
  "getStartOfDay rt t =
     (let local = t + timezoneOffset rt
      in local - local mod msPerDay - timezoneOffset rt)"

text \<open>\<^verbatim>\<open>d.setDate(d.getDate() + n)\<close>: the same local time \<open>n\<close> days later.\<close>

definition addDate :: "int \<Rightarrow> int \<Rightarrow> int" where
  "addDate d n = d + n * msPerDay"

text \<open>\<^verbatim>\<open>isSameDay(a, b)\<close>: the same local year, month and day of the month.\<close>

definition isSameDay :: "runtime \<Rightarrow> int \<Rightarrow> int \<Rightarrow> bool" where
  "isSameDay rt a b =
     ((a + timezoneOffset rt) div msPerDay = (b + timezoneOffset rt) div msPerDay)"

text \<open>The entries whose timestamp is a valid date, each with its date.\<close>

fun parseEntries :: "runtime \<Rightarrow> FocusEntry list \<Rightarrow> ParsedFocusEntry list" where
  "parseEntries rt [] = []"
| "parseEntries rt (entry # rest) =
     (case DateParse rt (timestamp entry) of
        None \<Rightarrow> parseEntries rt rest
      | Some d \<Rightarrow>
          \<lparr>entry_id = entry_id entry, timestamp = timestamp entry, duration = duration entry,
            date = d\<rparr> # parseEntries rt rest)"

definition sumDurations :: "ParsedFocusEntry list \<Rightarrow> int" where
  "sumDurations entries = foldl (\<lambda>acc entry. acc + duration entry) 0 entries"

text \<open>The \<^verbatim>\<open>for\<close> loop of the week breakdown (lines 632-645), from \<open>i\<close> on.\<close>

function weekLoop :: "runtime \<Rightarrow> int \<Rightarrow> int \<Rightarrow> ParsedFocusEntry list \<Rightarrow> nat \<Rightarrow> Bucket list" where
  "weekLoop rt weekStart todayStart weekEntries i =
     (if i < 7 then
        (let day = addDate weekStart (int i) in
         if todayStart < day then []
         else
           \<lparr>label = weekdayLabel rt day,
             totalSeconds = foldl (\<lambda>acc entry. acc + duration entry) 0
                              (filter (\<lambda>entry. isSameDay rt (date entry) day) weekEntries)\<rparr>
           # weekLoop rt weekStart todayStart weekEntries (i + 1))
      else [])"
  by pat_completeness auto
termination
  by (relation "measure (\<lambda>(rt, weekStart, todayStart, weekEntries, i). 7 - i)") auto

text \<open>The \<^verbatim>\<open>while\<close> loop of the month breakdown (lines 647-663), from \<open>cursor\<close> on.\<close>

function monthLoop :: "int \<Rightarrow> ParsedFocusEntry list \<Rightarrow> int \<Rightarrow> nat \<Rightarrow> Bucket list" where
  "monthLoop todayStart monthEntries cursor weekIndex =
     (if cursor \<le> todayStart then
        (let periodStart = cursor;
             periodEnd = (if todayStart < addDate cursor 6 then todayStart else addDate cursor 6)
         in \<lparr>label = ''Week '' @ string_of_nat weekIndex,
              totalSeconds = foldl (\<lambda>acc entry. acc + duration entry) 0
                               (filter (\<lambda>entry. periodStart \<le> date entry \<and> date entry \<le> periodEnd)
                                  monthEntries)\<rparr>
            # monthLoop todayStart monthEntries (addDate cursor 7) (weekIndex + 1))
      else [])"
  by pat_completeness auto
termination
  by (relation "measure (\<lambda>(todayStart, monthEntries, cursor, weekIndex). nat (todayStart - cursor + 1))")
     (auto simp: addDate_def msPerDay_def)

text \<open>
  \<^verbatim>\<open>productivityStats\<close> (lines 604-686) for the current instant \<open>now\<close>
  (\<^verbatim>\<open>new Date()\<close>).  The sort of the recent sessions is stable, as
  \<^verbatim>\<open>Array.prototype.sort\<close> is.
\<close>

definition productivityStats :: "runtime \<Rightarrow> int \<Rightarrow> FocusEntry list \<Rightarrow> ProductivityStats" where
  "productivityStats rt now focusEntries =
     (let todayStart = getStartOfDay rt now;
          weekStart = addDate todayStart (- 6);
          monthStart = addDate todayStart (- 29);
          parsedEntries = parseEntries rt focusEntries;
          dayEntries = filter (\<lambda>entry. todayStart \<le> date entry) parsedEntries;
          weekEntries = filter (\<lambda>entry. weekStart \<le> date entry) parsedEntries;
          monthEntries = filter (\<lambda>entry. monthStart \<le> date entry) parsedEntries
      in \<lparr>day_totalSeconds = sumDurations dayEntries,
           day_entries = dayEntries,
           week_totalSeconds = sumDurations weekEntries,
           week_breakdown = weekLoop rt weekStart todayStart weekEntries 0,
           month_totalSeconds = sumDurations monthEntries,
           month_breakdown = monthLoop todayStart monthEntries monthStart 1,
           recentSessions =
             map (\<lambda>entry. (date entry, duration entry))
               (take 5 (sort_key (\<lambda>entry. - date entry) dayEntries))\<rparr>)"

section \<open>The focus timer\<close>

datatype SessionType = Focus | Break

definition FOCUS_DURATION :: int where
  "FOCUS_DURATION = 25 * 60"

definition BREAK_DURATION :: int where
  "BREAK_DURATION = 5 * 60"

text \<open>
  What lies outside the component when the remote variant asks the backend to insert a
  row: the module constant \<^verbatim>\<open>isSupabaseConfigured\<close>, the error the backend answers
  the insert with (\<open>None\<close> when it accepts the row), the error it answers the reload
  that follows with, and \<^verbatim>\<open>new Date().toISOString()\<close>.
\<close>

record Backend =
  isSupabaseConfigured :: bool
  insertError :: "string option"
  reloadError :: "string option"
  nowISOString :: string

text \<open>
  A call of \<^verbatim>\<open>recordFocusSession\<close> that has sent its insert and waits for the answer.
  \<^verbatim>\<open>handleSkipSession\<close> awaits the call it makes and goes on when the call has
  finished: \<open>Some ty\<close> marks such a call, \<open>ty\<close> being the \<^verbatim>\<open>sessionType\<close> of the
  render the handler belongs to.  The countdown effect does not await its call: \<open>None\<close>.
\<close>

datatype Waiting = Waiting Backend "SessionType option"

text \<open>
  The three state variables of the timer, which both variants declare; the local
  variant adds a counter, the remote variant the signed-in user (its id), the error
  banner, the calls that wait for the backend and, as the state of the backend, the rows
  of the table \<^verbatim>\<open>focus_entries\<close>.
\<close>

record Timer =
  sessionType :: SessionType
  secondsLeft :: int
  isRunning :: bool

record LocalApp = Timer +
  completedPomodoros :: int

record FocusRow =
  row_user_id :: string
  row_duration :: int
  row_started_at :: string

record RemoteApp = Timer +
  user :: "string option"
  error :: "string option"
  focus_entries :: "FocusRow list"
  waiting :: "Waiting list"

text \<open>
  \<^verbatim>\<open>recordFocusSession(duration)\<close> (part_007, lines 515-541) is asynchronous.  Its
  first part runs to the \<^verbatim>\<open>await\<close> of the insert (lines 516-529): it returns early
  with an error message when no user is signed in or the backend is not configured, and
  sends the insert otherwise (the result says which).  The backend stores the row when it
  accepts the insert; the model stores it when the insert is sent.
\<close>

definition recordFocusSession_send :: "Backend \<Rightarrow> int \<Rightarrow> RemoteApp \<Rightarrow> RemoteApp \<times> bool" where
  "recordFocusSession_send be seconds st =
     (case user st of
        None \<Rightarrow> (st\<lparr>error := Some ''You must be signed in to record focus sessions.''\<rparr>, False)
      | Some uid \<Rightarrow>
          if \<not> isSupabaseConfigured be
          then (st\<lparr>error := Some ''Supabase environment variables are missing.''\<rparr>, False)
          else (case insertError be of
                  Some message \<Rightarrow> (st, True)
                | None \<Rightarrow>
                    (st\<lparr>focus_entries := focus_entries st @
                           [\<lparr>row_user_id = uid, row_duration = seconds,
                             row_started_at = nowISOString be\<rparr>]\<rparr>, True)))"

text \<open>
  Its second part runs when the backend has answered (lines 531-538): it shows the
  error of the insert, or calls \<^verbatim>\<open>loadFocusEntries\<close>, which clears the error banner,
  reads the table again and shows the error of that read, if any.  The answer to the
  insert and the answer to the read that follows are one step here.  The list that
  \<^verbatim>\<open>loadFocusEntries\<close> fills is the client's copy of the table and is not part of this
  state.
\<close>

definition recordFocusSession_answered :: "Backend \<Rightarrow> RemoteApp \<Rightarrow> RemoteApp" where
  "recordFocusSession_answered be st =
     (case insertError be of
        Some message \<Rightarrow> st\<lparr>error := Some message\<rparr>
      | None \<Rightarrow> st\<lparr>error := reloadError be\<rparr>)"

text \<open>The handlers both variants share (part_006, lines 767-789; part_007, lines 1354-1380).\<close>

definition handleStartPauseTimer :: "'a Timer_scheme \<Rightarrow> 'a Timer_scheme" where
  "handleStartPauseTimer st = st\<lparr>isRunning := \<not> isRunning st\<rparr>"

definition handleSessionSelect :: "SessionType \<Rightarrow> 'a Timer_scheme \<Rightarrow> 'a Timer_scheme" where
  "handleSessionSelect ty st =
     st\<lparr>sessionType := ty,
        secondsLeft := (if ty = Focus then FOCUS_DURATION else BREAK_DURATION),
        isRunning := False\<rparr>"

text \<open>The callback of the one-second interval: \<^verbatim>\<open>prev => Math.max(0, prev - 1)\<close>.\<close>

definition tick :: "'a Timer_scheme \<Rightarrow> 'a Timer_scheme" where
  "tick st = st\<lparr>secondsLeft := max 0 (secondsLeft st - 1)\<rparr>"

text \<open>The effect that stops the timer when its overlay closes.\<close>

definition closeTimer :: "'a Timer_scheme \<Rightarrow> 'a Timer_scheme" where
  "closeTimer st = st\<lparr>isRunning := False\<rparr>"

subsection \<open>Local variant\<close>

definition handleResetTimer_local :: "LocalApp \<Rightarrow> LocalApp" where
  "handleResetTimer_local st =
     st\<lparr>isRunning := False, sessionType := Focus, secondsLeft := FOCUS_DURATION,
        completedPomodoros := 0\<rparr>"

definition handleSkipSession_local :: "LocalApp \<Rightarrow> LocalApp" where
  "handleSkipSession_local st =
     (let nextSession = (if sessionType st = Focus then Break else Focus)
      in st\<lparr>sessionType := nextSession,
            secondsLeft := (if nextSession = Focus then FOCUS_DURATION else BREAK_DURATION),
            isRunning := False\<rparr>)"

text \<open>
  The body of the countdown effect (part_006, lines 507-528) up to the point where it
  starts the interval.
\<close>

definition countdownEffect_local :: "LocalApp \<Rightarrow> LocalApp" where
  "countdownEffect_local st =
     (if \<not> isRunning st then st
      else if secondsLeft st \<le> 0 then
        (let st1 = st\<lparr>isRunning := False\<rparr>;
             st2 = (if sessionType st = Focus
                    then st1\<lparr>completedPomodoros := completedPomodoros st1 + 1\<rparr>
                    else st1);
             nextSession = (if sessionType st = Focus then Break else Focus)
         in st2\<lparr>sessionType := nextSession,
                secondsLeft := (if nextSession = Focus then FOCUS_DURATION else BREAK_DURATION)\<rparr>)
      else st)"

datatype LocalEvent =
    LTick | LCountdownEffect | LStartPause | LReset | LSkip | LSelect SessionType | LClose

fun step_local :: "LocalApp \<Rightarrow> LocalEvent \<Rightarrow> LocalApp" where
  "step_local st LTick = tick st"
| "step_local st LCountdownEffect = countdownEffect_local st"
| "step_local st LStartPause = handleStartPauseTimer st"
| "step_local st LReset = handleResetTimer_local st"
| "step_local st LSkip = handleSkipSession_local st"
| "step_local st (LSelect ty) = handleSessionSelect ty st"
| "step_local st LClose = closeTimer st"

definition initial_local :: LocalApp where
  "initial_local =
     \<lparr>sessionType = Focus, secondsLeft = FOCUS_DURATION, isRunning = False,
      completedPomodoros = 0\<rparr>"

subsection \<open>Remote variant\<close>

definition handleResetTimer :: "RemoteApp \<Rightarrow> RemoteApp" where
  "handleResetTimer st =
     st\<lparr>isRunning := False, sessionType := Focus, secondsLeft := FOCUS_DURATION\<rparr>"

text \<open>
  \<^verbatim>\<open>handleSkipSession\<close> (part_007, lines 1364-1374) is asynchronous.  Its last four
  lines (1370-1373) run with the \<^verbatim>\<open>sessionType\<close> of the render the handler belongs
  to, here \<open>captured\<close>.
\<close>

definition handleSkipSession_resume :: "SessionType \<Rightarrow> RemoteApp \<Rightarrow> RemoteApp" where
  "handleSkipSession_resume captured st =
     (let nextSession = (if captured = Focus then Break else Focus)
      in st\<lparr>sessionType := nextSession,
            secondsLeft := (if nextSession = Focus then FOCUS_DURATION else BREAK_DURATION),
            isRunning := False\<rparr>)"

text \<open>
  Its first lines (1365-1368) run when the button is pressed.  In a break nothing is
  awaited and the last lines follow at once; so they do when \<^verbatim>\<open>recordFocusSession\<close>
  returns early.  When the insert has been sent the handler waits, and the timer keeps
  running, until the backend has answered.
\<close>

definition handleSkipSession_start :: "Backend \<Rightarrow> RemoteApp \<Rightarrow> RemoteApp" where
  "handleSkipSession_start be st =
     (let sessionDuration = (if sessionType st = Focus then FOCUS_DURATION else BREAK_DURATION)
      in if sessionType st = Focus then
           (let (st1, sent) = recordFocusSession_send be sessionDuration st
            in if sent then st1\<lparr>waiting := waiting st1 @ [Waiting be (Some (sessionType st))]\<rparr>
               else handleSkipSession_resume (sessionType st) st1)
         else handleSkipSession_resume (sessionType st) st)"

text \<open>
  The backend answers the \<open>n\<close>-th waiting call: \<^verbatim>\<open>recordFocusSession\<close> finishes, and
  the skip handler that awaited it, if any, runs its last lines.
\<close>

definition backendAnswers :: "nat \<Rightarrow> RemoteApp \<Rightarrow> RemoteApp" where
  "backendAnswers n st =
     (if n < length (waiting st) then
        (case waiting st ! n of
           Waiting be awaitedBy \<Rightarrow>
             (let st1 = recordFocusSession_answered be
                          (st\<lparr>waiting := take n (waiting st) @ drop (Suc n) (waiting st)\<rparr>)
              in case awaitedBy of
                   None \<Rightarrow> st1
                 | Some captured \<Rightarrow> handleSkipSession_resume captured st1))
      else st)"

text \<open>
  \<^verbatim>\<open>handleSkipSession\<close> when nothing else happens between its first and its last
  line: the backend answers the call the handler has just made before any other event.
\<close>

definition handleSkipSession :: "Backend \<Rightarrow> RemoteApp \<Rightarrow> RemoteApp" where
  "handleSkipSession be st = backendAnswers (length (waiting st)) (handleSkipSession_start be st)"

text \<open>
  The body of the countdown effect (part_007, lines 555-578).  It does not await
  \<^verbatim>\<open>recordFocusSession\<close>: the session changes at once.
\<close>

definition countdownEffect :: "Backend \<Rightarrow> RemoteApp \<Rightarrow> RemoteApp" where
  "countdownEffect be st =
     (if \<not> isRunning st then st
      else
        let sessionDuration = (if sessionType st = Focus then FOCUS_DURATION else BREAK_DURATION)
        in if secondsLeft st \<le> 0 then
             (let st1 = st\<lparr>isRunning := False\<rparr>;
                  st2 = (if sessionType st = Focus then
                           (let (st3, sent) = recordFocusSession_send be sessionDuration st1
                            in if sent then st3\<lparr>waiting := waiting st3 @ [Waiting be None]\<rparr>
                               else st3)
                         else st1);
                  nextSession = (if sessionType st = Focus then Break else Focus)
              in st2\<lparr>sessionType := nextSession,
                     secondsLeft := (if nextSession = Focus then FOCUS_DURATION else BREAK_DURATION)\<rparr>)
           else st)"

text \<open>
  The events of the remote variant.  \<open>Skip\<close> is the press of the skip button,
  \<open>BackendAnswers\<close> the arrival of an answer, \<open>AuthChange\<close> the authentication listener
  setting the user.  The interval callback is allowed in every state, also in those in
  which the component has no interval running.
\<close>

datatype RemoteEvent =
    Tick | CountdownEffect Backend | StartPause | Reset | Skip Backend | BackendAnswers nat
  | Select SessionType | Close | AuthChange "string option"

fun step_remote :: "RemoteApp \<Rightarrow> RemoteEvent \<Rightarrow> RemoteApp" where
  "step_remote st Tick = tick st"
| "step_remote st (CountdownEffect be) = countdownEffect be st"
| "step_remote st StartPause = handleStartPauseTimer st"
| "step_remote st Reset = handleResetTimer st"
| "step_remote st (Skip be) = handleSkipSession_start be st"
| "step_remote st (BackendAnswers n) = backendAnswers n st"
| "step_remote st (Select ty) = handleSessionSelect ty st"
| "step_remote st Close = closeTimer st"
| "step_remote st (AuthChange u) = st\<lparr>user := u\<rparr>"

definition initial_remote :: "FocusRow list \<Rightarrow> RemoteApp" where
  "initial_remote rows =
     \<lparr>sessionType = Focus, secondsLeft = FOCUS_DURATION, isRunning = False,
      user = None, error = None, focus_entries = rows, waiting = []\<rparr>"

section \<open>Concrete hosts for the examples\<close>

text \<open>
  The examples below run the model on a host in UTC and on one in a zone five and a half
  hours ahead of it.  Their \<open>StringToNumber\<close> is the part of the engine's conversion
  the examples use: white space is trimmed, the empty string is 0, an optionally signed
  run of decimal digits is its value, and every other string is answered \<open>NaN\<close> (the
  engine reads more: fractions, exponents, hexadecimal, \<^verbatim>\<open>Infinity\<close>).  Their
  \<open>NumberToString\<close> prints the non-finite numbers and the integers; no example prints
  another number.  Their \<open>DateParse\<close> knows the ISO timestamps of the examples.
\<close>

definition digitValue :: "char \<Rightarrow> nat option" where
  "digitValue c = map_of (zip ''0123456789'' [0, 1, 2, 3, 4, 5, 6, 7, 8, 9]) c"

fun decimalValue :: "nat \<Rightarrow> string \<Rightarrow> nat option" where
  "decimalValue acc [] = Some acc"
| "decimalValue acc (c # cs) =
     (case digitValue c of None \<Rightarrow> None | Some d \<Rightarrow> decimalValue (10 * acc + d) cs)"

definition unsignedDecimal :: "string \<Rightarrow> rat option" where
  "unsignedDecimal ds = (if ds = [] then None else map_option of_nat (decimalValue 0 ds))"

definition demoStringToNumber :: "string \<Rightarrow> jsnum" where
  "demoStringToNumber s =
     (case trim s of
        [] \<Rightarrow> Fin 0
      | c # cs \<Rightarrow>
          if c = CHR ''-'' then
            (case unsignedDecimal cs of None \<Rightarrow> NaN | Some q \<Rightarrow> round_overflow (- q))
          else if c = CHR ''+'' then
            (case unsignedDecimal cs of None \<Rightarrow> NaN | Some q \<Rightarrow> round_overflow q)
          else
            (case unsignedDecimal (c # cs) of None \<Rightarrow> NaN | Some q \<Rightarrow> round_overflow q))"

definition demoNumberToString :: "jsnum \<Rightarrow> string" where
  "demoNumberToString n =
     (case n of
        Fin q \<Rightarrow> (if q < 0 then ''-'' else []) @ string_of_nat (nat \<lfloor>\<bar>q\<bar>\<rfloor>)
      | NaN \<Rightarrow> ''NaN''
      | PosInf \<Rightarrow> ''Infinity''
      | NegInf \<Rightarrow> ''-Infinity'')"

definition demoDateParse :: "string \<Rightarrow> int option" where
  "demoDateParse =
     map_of [(''2024-10-03T18:29:00.000Z'', 1727980140000),
             (''2024-10-03T19:30:00.000Z'', 1727983800000),
             (''2024-10-03T23:59:00.000Z'', 1727999940000),
             (''2024-10-04T01:00:00.000Z'', 1728003600000),
             (''2024-10-04T12:00:00.000Z'', 1728043200000),
             (''2024-10-04T17:30:00.000Z'', 1728063000000),
             (''2024-10-04T23:00:00.000Z'', 1728082800000)]"

definition demoWeekdayLabel :: "int \<Rightarrow> string" where
  "demoWeekdayLabel t =
     [''Thu'', ''Fri'', ''Sat'', ''Sun'', ''Mon'', ''Tue'', ''Wed''] ! nat ((t div msPerDay) mod 7)"

definition demo_runtime :: runtime where
  "demo_runtime =
     \<lparr>StringToNumber = demoStringToNumber,
      NumberToString = demoNumberToString,
      randomId = (\<lambda>k. ''uuid'' @ string_of_nat k),
      DateParse = demoDateParse,
      timezoneOffset = 0,
      weekdayLabel = demoWeekdayLabel\<rparr>"

text \<open>The same host in a zone at UTC+05:30 (19800000 milliseconds ahead).\<close>

definition colombo_runtime :: runtime where
  "colombo_runtime =
     \<lparr>StringToNumber = demoStringToNumber,
      NumberToString = demoNumberToString,
      randomId = (\<lambda>k. ''uuid'' @ string_of_nat k),
      DateParse = demoDateParse,
      timezoneOffset = 19800000,
      weekdayLabel = (\<lambda>t. demoWeekdayLabel (t + 19800000))\<rparr>"

section \<open>What the claims speak of\<close>

subsection \<open>States\<close>

definition subjects_of :: "jsval \<Rightarrow> jsval list" where
  "subjects_of st = (case getProp st ''subjects'' of JArr xs \<Rightarrow> xs | other \<Rightarrow> [])"

definition exams_of :: "jsval \<Rightarrow> jsval list" where
  "exams_of subject = (case getProp subject ''exams'' of JArr xs \<Rightarrow> xs | other \<Rightarrow> [])"

definition ids_of :: "jsval list \<Rightarrow> jsval list" where
  "ids_of xs = map (\<lambda>x. getProp x ''id'') xs"

definition id_nonempty :: "jsval \<Rightarrow> bool" where
  "id_nonempty v = (case getProp v ''id'' of JStr s \<Rightarrow> s \<noteq> [] | other \<Rightarrow> False)"

definition completion_in_range :: "jsval \<Rightarrow> bool" where
  "completion_in_range exam =
     (case getProp exam ''completion'' of
        JNum (Fin c) \<Rightarrow> 0 \<le> c \<and> c \<le> 100
      | other \<Rightarrow> False)"

definition active_is_member :: "jsval \<Rightarrow> bool" where
  "active_is_member st =
     list_ex (\<lambda>subject. getProp subject ''id'' = getProp st ''activeSubjectId'') (subjects_of st)"

text \<open>
  The properties claim C1 promises of every result: the subjects are not empty, every
  subject has a non-empty id, the subject ids are pairwise different, so are the exam
  ids inside each subject, every completion lies in \<open>[0, 100]\<close>, and the active subject
  is one of the subjects.
\<close>

definition claimed_state_invariants :: "jsval \<Rightarrow> bool" where
  "claimed_state_invariants st =
     (subjects_of st \<noteq> [] \<and>
      list_all id_nonempty (subjects_of st) \<and>
      distinct (ids_of (subjects_of st)) \<and>
      list_all (\<lambda>subject. distinct (ids_of (exams_of subject))) (subjects_of st) \<and>
      list_all (\<lambda>subject. list_all completion_in_range (exams_of subject)) (subjects_of st) \<and>
      active_is_member st)"

text \<open>The part of them that every repaired state has.\<close>

definition repaired :: "jsval \<Rightarrow> bool" where
  "repaired st =
     (subjects_of st \<noteq> [] \<and>
      list_all id_nonempty (subjects_of st) \<and>
      list_all (\<lambda>subject. list_all completion_in_range (exams_of subject)) (subjects_of st) \<and>
      active_is_member st)"

text \<open>
  \<^verbatim>\<open>normalizeStoredValue(JSON.parse(JSON.stringify(v)))\<close>: the state it returns,
  or the exception that \<^verbatim>\<open>JSON.parse\<close> or the normalizer throws.
\<close>

definition normalize_after_roundtrip :: "runtime \<Rightarrow> jsval \<Rightarrow> nat \<Rightarrow> js_error + jsval" where
  "normalize_after_roundtrip rt v k =
     (case json_roundtrip v of
        None \<Rightarrow> Inl SyntaxError
      | Some parsed \<Rightarrow>
          (case normalizeStoredValue rt parsed k of
             Inl err \<Rightarrow> Inl err
           | Inr (st, k1) \<Rightarrow> Inr st))"

text \<open>
  The values that pass the sanitizers' test \<^verbatim>\<open>raw && typeof raw === "object"\<close>:
  the objects and the arrays.
\<close>

definition is_object :: "jsval \<Rightarrow> bool" where
  "is_object v = (truthy v \<and> typeof v = ''object'')"

text \<open>
  \<^verbatim>\<open>Number(v)\<close> returns; and the four \<^verbatim>\<open>Number(...)\<close> calls of
  \<^verbatim>\<open>sanitizeExam\<close> return for a raw exam (that is not an object, or whose
  \<^verbatim>\<open>mcq\<close>, \<^verbatim>\<open>essay\<close>, \<^verbatim>\<open>total\<close> and \<^verbatim>\<open>completion\<close> all convert).
\<close>

definition converts :: "runtime \<Rightarrow> jsval \<Rightarrow> bool" where
  "converts rt v = (case ToNumber rt v of Inl err \<Rightarrow> False | Inr n \<Rightarrow> True)"

definition exam_converts :: "runtime \<Rightarrow> jsval \<Rightarrow> bool" where
  "exam_converts rt raw =
     (is_object raw \<longrightarrow>
        converts rt (getProp raw ''mcq'') \<and> converts rt (getProp raw ''essay'') \<and>
        converts rt (getProp raw ''total'') \<and> converts rt (getProp raw ''completion''))"

text \<open>The elements of \<open>v\<close>, if \<open>v\<close> is an array.\<close>

definition elements_of :: "jsval \<Rightarrow> jsval list" where
  "elements_of v = (case v of JArr xs \<Rightarrow> xs | other \<Rightarrow> [])"

text \<open>
  No raw exam that the normalizer can reach in \<open>v\<close> makes a \<^verbatim>\<open>Number(...)\<close> call
  throw: neither an element of \<open>v\<close>, if \<open>v\<close> is an array, nor an element of the
  \<^verbatim>\<open>exams\<close> array of an element of \<open>v\<close>'s \<^verbatim>\<open>subjects\<close> array.
\<close>

definition never_throws :: "runtime \<Rightarrow> jsval \<Rightarrow> bool" where
  "never_throws rt v =
     (list_all (exam_converts rt) (elements_of v) \<and>
      list_all (\<lambda>subject. list_all (exam_converts rt) (exams_of subject)) (subjects_of v))"

text \<open>
  \<open>out\<close> has the id of \<open>raw\<close> if that is a non-blank string; and a sanitized subject
  \<open>out\<close> comes from the raw subject \<open>raw\<close>: it keeps the id in that sense, and its
  exams are the object-shaped raw exams, in order, each keeping its id in that sense.
\<close>

definition keeps_id :: "jsval \<Rightarrow> jsval \<Rightarrow> bool" where
  "keeps_id raw out =
     (nonblank_string (getProp raw ''id'') \<longrightarrow> getProp out ''id'' = getProp raw ''id'')"

definition sanitized_from :: "jsval \<Rightarrow> jsval \<Rightarrow> bool" where
  "sanitized_from raw out =
     (keeps_id raw out \<and> list_all2 keeps_id (filter is_object (exams_of raw)) (exams_of out))"

text \<open>
  A state of one subject with one exam, whose \<^verbatim>\<open>completion\<close> is the argument: it
  passes \<^verbatim>\<open>isValidAppState\<close> whenever the argument is a number.
\<close>

definition state_with_completion :: "jsval \<Rightarrow> jsval" where
  "state_with_completion c =
     JObj [(''subjects'',
            JArr [JObj [(''id'', JStr ''s1''), (''name'', JStr ''Physics''),
                        (''exams'',
                         JArr [JObj [(''id'', JStr ''e1''), (''paper'', JStr ''P1''),
                                     (''mcq'', JNum (Fin 1)), (''essay'', JNum (Fin 2)),
                                     (''total'', JNum (Fin 3)), (''completion'', c)]])]]),
           (''activeSubjectId'', JStr ''s1'')]"

text \<open>
  A stored value that is not valid (its exams have no numbers) and in which two
  subjects share the id \<^verbatim>\<open>a\<close> and two exams the id \<^verbatim>\<open>e\<close>.
\<close>

definition duplicate_ids_input :: jsval where
  "duplicate_ids_input =
     JObj [(''subjects'',
            JArr [JObj [(''id'', JStr ''a''), (''name'', JStr ''Maths''),
                        (''exams'',
                         JArr [JObj [(''id'', JStr ''e''), (''paper'', JStr ''P1'')],
                               JObj [(''id'', JStr ''e''), (''paper'', JStr ''P2'')]])],
                  JObj [(''id'', JStr ''a''), (''name'', JStr ''Biology''), (''exams'', JArr [])]]),
           (''activeSubjectId'', JStr ''a'')]"

text \<open>What the normalizer makes of it: every id is kept.\<close>

definition duplicate_ids_output :: jsval where
  "duplicate_ids_output =
     state_object
       [subject_object ''a'' ''Maths''
          [exam_object ''e'' ''P1'' (Fin 0) (Fin 0) (Fin 0) (Fin 0),
           exam_object ''e'' ''P2'' (Fin 0) (Fin 0) (Fin 0) (Fin 0)],
        subject_object ''a'' ''Biology'' []]
       (JStr ''a'')"

text \<open>
  The stored JSON \<^verbatim>\<open>{"subjects":[{"exams":[{"mcq":{"toString":null}}]}]}\<close>.
\<close>

definition poisoned_input :: jsval where
  "poisoned_input =
     JObj [(''subjects'',
            JArr [JObj [(''exams'',
                         JArr [JObj [(''mcq'', JObj [(''toString'', JNull)])]])]])]"

text \<open>
  The double \<open>2^1023\<close> (in JSON text \<^verbatim>\<open>8.98846567431158e+307\<close>) and a raw exam
  whose \<^verbatim>\<open>mcq\<close> and \<^verbatim>\<open>essay\<close> are that number.
\<close>

definition huge :: rat where
  "huge = 2 ^ 1023"

definition huge_exam :: jsval where
  "huge_exam = JObj [(''mcq'', JNum (Fin huge)), (''essay'', JNum (Fin huge))]"

subsection \<open>Forms\<close>

definition blank_form :: ExamFormState where
  "blank_form =
     \<lparr>form_paper = ''  '', form_mcq = ''10'', form_essay = ''2'', form_total = ''12'',
      form_completion = ''80''\<rparr>"

definition unparseable_form :: ExamFormState where
  "unparseable_form =
     \<lparr>form_paper = '' Math P1 '', form_mcq = ''x'', form_essay = [], form_total = ''-'',
      form_completion = ''?''\<rparr>"

definition negative_mcq_form :: ExamFormState where
  "negative_mcq_form =
     \<lparr>form_paper = ''Math P1'', form_mcq = ''-5'', form_essay = ''10'', form_total = [],
      form_completion = ''50''\<rparr>"

subsection \<open>Focus entries\<close>

text \<open>Noon of 4 October 2024 (UTC), and the three entries of the specification's example.\<close>

definition demo_now :: int where
  "demo_now = 1728043200000"

definition demo_entries :: "FocusEntry list" where
  "demo_entries =
     [\<lparr>entry_id = ''today-0100'', timestamp = ''2024-10-04T01:00:00.000Z'', duration = 300\<rparr>,
      \<lparr>entry_id = ''today-2300'', timestamp = ''2024-10-04T23:00:00.000Z'', duration = 600\<rparr>,
      \<lparr>entry_id = ''yesterday-2359'', timestamp = ''2024-10-03T23:59:00.000Z'',
        duration = 900\<rparr>]"

text \<open>
  The same example in the zone at UTC+05:30: it is 12:00 there (06:30 UTC), and the
  entries are of 01:00 today (19:30 UTC of the day before), of 23:00 today and of 23:59
  yesterday.
\<close>

definition colombo_now :: int where
  "colombo_now = 1728023400000"

definition colombo_entries :: "FocusEntry list" where
  "colombo_entries =
     [\<lparr>entry_id = ''today-0100'', timestamp = ''2024-10-03T19:30:00.000Z'', duration = 300\<rparr>,
      \<lparr>entry_id = ''today-2300'', timestamp = ''2024-10-04T17:30:00.000Z'', duration = 600\<rparr>,
      \<lparr>entry_id = ''yesterday-2359'', timestamp = ''2024-10-03T18:29:00.000Z'',
        duration = 900\<rparr>]"

definition noon_entry :: "FocusEntry list" where
  "noon_entry =
     [\<lparr>entry_id = ''today-1200'', timestamp = ''2024-10-04T12:00:00.000Z'', duration = 1500\<rparr>]"

subsection \<open>Timer runs\<close>

definition run_local :: "LocalEvent list \<Rightarrow> LocalApp" where
  "run_local events = foldl step_local initial_local events"

definition run_remote :: "FocusRow list \<Rightarrow> RemoteEvent list \<Rightarrow> RemoteApp" where
  "run_remote rows events = foldl step_remote (initial_remote rows) events"

text \<open>
  \<open>after\<close> holds exactly one row more than \<open>before\<close>, and that row's duration is the
  nominal focus duration.
\<close>

definition records_one_focus_entry :: "RemoteApp \<Rightarrow> RemoteApp \<Rightarrow> bool" where
  "records_one_focus_entry before after =
     (focus_entries after \<noteq> [] \<and>
      butlast (focus_entries after) = focus_entries before \<and>
      row_duration (last (focus_entries after)) = 25 * 60)"

definition focus_running :: RemoteApp where
  "focus_running =
     \<lparr>sessionType = Focus, secondsLeft = 1234, isRunning = True,
      user = Some ''user-1'', error = None, focus_entries = [], waiting = []\<rparr>"

definition accepting_backend :: Backend where
  "accepting_backend =
     \<lparr>isSupabaseConfigured = True, insertError = None, reloadError = None,
      nowISOString = ''2024-10-04T12:00:00.000Z''\<rparr>"

definition failing_backend :: Backend where
  "failing_backend = accepting_backend\<lparr>insertError := Some ''Failed to fetch''\<rparr>"

text \<open>
  The skip button is pressed in the last second of a focus session; before the backend
  has answered, the interval ticks and the countdown effect ends the session; then the
  backend answers both calls.
\<close>

definition skip_in_last_second :: "RemoteEvent list" where
  "skip_in_last_second =
     [Skip accepting_backend, Tick, CountdownEffect accepting_backend,
      BackendAnswers 0, BackendAnswers 0]"

section \<open>Evaluation lemmas\<close>

lemmas normalizer_defs =
  normalizeStoredValue_def isValidAppState_def isValidSubject_def isValidExam_def
  sanitizeSubject_def sanitizeExam_def coalesce_def createId_def trim_def isWhiteSpace_def
  state_object_def subject_object_def exam_object_def Let_def

lemmas demo_number_defs =
  demo_runtime_def demoStringToNumber_def trim_def isWhiteSpace_def unsignedDecimal_def
  digitValue_def round_overflow_def overflow_bound_def

lemmas demo_clock_defs =
  demo_runtime_def colombo_runtime_def demoDateParse_def getStartOfDay_def addDate_def
  msPerDay_def

lemma string_of_nat_digit: "n < 10 \<Longrightarrow> string_of_nat n = [digitChar n]"
  by (subst string_of_nat.simps) simp

lemma trim_Nil [simp]: "trim [] = []"
  by (simp add: trim_def)

lemma getProp_exam_object [simp]:
  "getProp (exam_object i p m e t c) ''id'' = JStr i"
  "getProp (exam_object i p m e t c) ''completion'' = JNum c"
  by (simp_all add: exam_object_def)

lemma getProp_subject_object [simp]:
  "getProp (subject_object i n exams) ''id'' = JStr i"
  "getProp (subject_object i n exams) ''exams'' = JArr exams"
  by (simp_all add: subject_object_def)

lemma getProp_state_object [simp]:
  "getProp (state_object subjects active) ''subjects'' = JArr subjects"
  "getProp (state_object subjects active) ''activeSubjectId'' = active"
  by (simp_all add: state_object_def)

section \<open>The payload builder: what it rejects\<close>

text \<open>
  Claim C5.  \<^verbatim>\<open>prepareExamPayload\<close> returns \<^verbatim>\<open>null\<close> if and only if the form's
  paper field is empty after trimming; whatever the other fields hold, a form whose
  trimmed paper is not empty gets a payload.  This holds for the builder of the local
  variant and for that of the remote variant, and for every answer the engine's number
  conversion may give.  The builder reads nothing but its argument and writes nothing:
  it is a function of the form (and of the engine's conversion) alone.
\<close>

theorem prepareExamPayload_null_iff:
  "(prepareExamPayload rt form = None \<longleftrightarrow> trim (form_paper form) = []) \<and>
   (prepareExamPayload_remote rt rform = None \<longleftrightarrow> trim (rform_paper rform) = [])"
  by (simp add: prepareExamPayload_def prepareExamPayload_remote_def Let_def)

text \<open>
  A form whose paper is two blanks is rejected although its other fields are fine; a
  form whose paper is \<^verbatim>\<open>" Math P1 "\<close> is accepted although none of its other fields is
  a number.
\<close>

theorem prepareExamPayload_null_iff_witness:
  "prepareExamPayload demo_runtime blank_form = None \<and>
   prepareExamPayload demo_runtime unparseable_form \<noteq> None"
  using prepareExamPayload_null_iff [of demo_runtime blank_form]
        prepareExamPayload_null_iff [of demo_runtime unparseable_form]
  by (simp add: blank_form_def unparseable_form_def trim_def isWhiteSpace_def)

section \<open>The normalizer on valid states\<close>

text \<open>
  Claim C2.  If the input satisfies \<^verbatim>\<open>isValidAppState\<close>, then
  \<^verbatim>\<open>normalizeStoredValue\<close> returns the input itself, unchanged, and creates no
  identifier; so normalizing the result once more returns that same result.  (The first
  branch of the function is \<^verbatim>\<open>return value\<close>: what comes back is the argument, not a
  copy of it.)
\<close>

theorem normalize_valid_identity:
  "isValidAppState x \<Longrightarrow>
     normalizeStoredValue rt x k = Inr (x, k) \<and>
     (case normalizeStoredValue rt x k of
        Inl err \<Rightarrow> False
      | Inr (y, k1) \<Rightarrow> normalizeStoredValue rt y k2 = Inr (y, k2))"
  by (simp add: normalizeStoredValue_def)

theorem normalize_valid_identity_witness:
  "isValidAppState (state_with_completion (JNum (Fin 150))) \<and>
   normalizeStoredValue demo_runtime (state_with_completion (JNum (Fin 150))) 0 =
     Inr (state_with_completion (JNum (Fin 150)), 0) \<and>
   normalizeStoredValue demo_runtime (state_with_completion (JNum (Fin 150))) 7 =
     Inr (state_with_completion (JNum (Fin 150)), 7)"
proof -
  have valid: "isValidAppState (state_with_completion (JNum (Fin 150)))"
    by (simp add: state_with_completion_def isValidAppState_def isValidSubject_def
          isValidExam_def trim_def isWhiteSpace_def)
  show ?thesis
    using valid normalize_valid_identity [OF valid, of demo_runtime 0 7] by auto
qed

section \<open>The countdown\<close>

lemma secondsLeft_send [simp]:
  "secondsLeft (fst (recordFocusSession_send be seconds st)) = secondsLeft st"
  by (simp add: recordFocusSession_send_def split: option.splits)

lemma secondsLeft_answered [simp]:
  "secondsLeft (recordFocusSession_answered be st) = secondsLeft st"
  by (simp add: recordFocusSession_answered_def split: option.splits)

lemma secondsLeft_resume:
  "secondsLeft (handleSkipSession_resume captured st) =
     (if captured = Focus then BREAK_DURATION else FOCUS_DURATION)"
  by (simp add: handleSkipSession_resume_def Let_def)

lemma secondsLeft_start:
  "secondsLeft (handleSkipSession_start be st) = secondsLeft st \<or>
   secondsLeft (handleSkipSession_start be st) =
     (if sessionType st = Focus then BREAK_DURATION else FOCUS_DURATION)"
  by (simp add: handleSkipSession_start_def Let_def case_prod_beta secondsLeft_resume)

lemma secondsLeft_backendAnswers:
  "secondsLeft (backendAnswers n st) = secondsLeft st \<or>
   secondsLeft (backendAnswers n st) = BREAK_DURATION \<or>
   secondsLeft (backendAnswers n st) = FOCUS_DURATION"
  by (simp add: backendAnswers_def Let_def secondsLeft_resume
        split: Waiting.splits option.splits)

lemma secondsLeft_countdownEffect:
  "secondsLeft (countdownEffect be st) = secondsLeft st \<or>
   secondsLeft (countdownEffect be st) = BREAK_DURATION \<or>
   secondsLeft (countdownEffect be st) = FOCUS_DURATION"
  by (simp add: countdownEffect_def Let_def case_prod_beta)

lemma step_remote_nonneg:
  assumes "0 \<le> secondsLeft st"
  shows "0 \<le> secondsLeft (step_remote st ev)"
proof (cases ev)
  case (CountdownEffect be)
  then show ?thesis
    using assms secondsLeft_countdownEffect [of be st]
    by (auto simp: FOCUS_DURATION_def BREAK_DURATION_def)
next
  case (Skip be)
  then show ?thesis
    using assms secondsLeft_start [of be st]
    by (auto simp: FOCUS_DURATION_def BREAK_DURATION_def split: if_splits)
next
  case (BackendAnswers n)
  then show ?thesis
    using assms secondsLeft_backendAnswers [of n st]
    by (auto simp: FOCUS_DURATION_def BREAK_DURATION_def)
qed (use assms in \<open>simp_all add: tick_def handleStartPauseTimer_def handleResetTimer_def
       handleSessionSelect_def closeTimer_def FOCUS_DURATION_def BREAK_DURATION_def\<close>)

lemma step_local_nonneg: "0 \<le> secondsLeft st \<Longrightarrow> 0 \<le> secondsLeft (step_local st ev)"
  by (cases ev)
     (simp_all add: tick_def countdownEffect_local_def handleStartPauseTimer_def
        handleResetTimer_local_def handleSkipSession_local_def handleSessionSelect_def
        closeTimer_def FOCUS_DURATION_def BREAK_DURATION_def Let_def)

lemma foldl_remote_nonneg:
  "0 \<le> secondsLeft st \<Longrightarrow> 0 \<le> secondsLeft (foldl step_remote st events)"
  by (induction events arbitrary: st) (simp_all add: step_remote_nonneg)

lemma foldl_local_nonneg:
  "0 \<le> secondsLeft st \<Longrightarrow> 0 \<le> secondsLeft (foldl step_local st events)"
  by (induction events arbitrary: st) (simp_all add: step_local_nonneg)

lemma run_local_nonneg: "0 \<le> secondsLeft (run_local events)"
  unfolding run_local_def
  by (rule foldl_local_nonneg) (simp add: initial_local_def FOCUS_DURATION_def)

lemma run_remote_nonneg: "0 \<le> secondsLeft (run_remote rows events)"
  unfolding run_remote_def
  by (rule foldl_remote_nonneg) (simp add: initial_remote_def FOCUS_DURATION_def)

lemma countdown_transition:
  "isRunning st \<Longrightarrow> secondsLeft st \<le> 0 \<Longrightarrow>
     secondsLeft (countdownEffect be st) =
       (if sessionType st = Focus then BREAK_DURATION else FOCUS_DURATION)"
  by (simp add: countdownEffect_def Let_def case_prod_beta)

lemma countdown_local_transition:
  "isRunning st \<Longrightarrow> secondsLeft st \<le> 0 \<Longrightarrow>
     secondsLeft (countdownEffect_local st) =
       (if sessionType st = Focus then BREAK_DURATION else FOCUS_DURATION)"
  by (simp add: countdownEffect_local_def Let_def)

lemma waiting_send [simp]:
  "waiting (fst (recordFocusSession_send be seconds st)) = waiting st"
  by (simp add: recordFocusSession_send_def split: option.splits)

lemma secondsLeft_uninterrupted_skip:
  "secondsLeft (handleSkipSession be st) =
     (if sessionType st = Focus then BREAK_DURATION else FOCUS_DURATION)"
  by (simp add: handleSkipSession_def handleSkipSession_start_def backendAnswers_def Let_def
        case_prod_beta secondsLeft_resume handleSkipSession_resume_def)

text \<open>
  Claim C9.  In every state that any sequence of timer events reaches from the initial
  state, in the local and in the remote variant, \<^verbatim>\<open>secondsLeft\<close> is at least 0.  A tick
  takes one second off but never goes below 0; the transition at the end of a countdown,
  a skip (its last lines, whenever they run), a reset and a session selection each set
  \<^verbatim>\<open>secondsLeft\<close> to the focus duration (1500) or the break duration (300), both
  positive.
\<close>

theorem secondsLeft_never_negative:
  "0 \<le> secondsLeft (run_local levents) \<and>
   0 \<le> secondsLeft (run_remote rows revents) \<and>
   secondsLeft (tick st) = max 0 (secondsLeft st - 1) \<and>
   (isRunning rs \<and> secondsLeft rs \<le> 0 \<longrightarrow>
      secondsLeft (countdownEffect be rs) =
        (if sessionType rs = Focus then BREAK_DURATION else FOCUS_DURATION)) \<and>
   (isRunning ls \<and> secondsLeft ls \<le> 0 \<longrightarrow>
      secondsLeft (countdownEffect_local ls) =
        (if sessionType ls = Focus then BREAK_DURATION else FOCUS_DURATION)) \<and>
   secondsLeft (handleSkipSession be rs) =
     (if sessionType rs = Focus then BREAK_DURATION else FOCUS_DURATION) \<and>
   secondsLeft (handleSkipSession_resume captured rs) =
     (if captured = Focus then BREAK_DURATION else FOCUS_DURATION) \<and>
   secondsLeft (handleSkipSession_local ls) =
     (if sessionType ls = Focus then BREAK_DURATION else FOCUS_DURATION) \<and>
   secondsLeft (handleResetTimer rs) = FOCUS_DURATION \<and>
   secondsLeft (handleResetTimer_local ls) = FOCUS_DURATION \<and>
   secondsLeft (handleSessionSelect ty st) =
     (if ty = Focus then FOCUS_DURATION else BREAK_DURATION) \<and>
   FOCUS_DURATION = 1500 \<and> BREAK_DURATION = 300"
  using run_local_nonneg [of levents] run_remote_nonneg [of rows revents]
    countdown_transition [of rs be] countdown_local_transition [of ls]
    secondsLeft_uninterrupted_skip [of be rs] secondsLeft_resume [of captured rs]
  by (simp add: tick_def handleSkipSession_local_def handleResetTimer_def
        handleResetTimer_local_def handleSessionSelect_def FOCUS_DURATION_def BREAK_DURATION_def
        Let_def)

text \<open>
  A break is selected and started; four ticks take it from 300 to 296.  With one second
  left two ticks stop at 0, and the countdown's end then starts a break of 300 seconds.
\<close>

theorem secondsLeft_never_negative_witness:
  "secondsLeft (run_local [LSelect Break, LStartPause, LTick, LTick, LTick, LTick]) = 296 \<and>
   0 \<le> secondsLeft (run_local [LSelect Break, LStartPause, LTick, LTick, LTick, LTick]) \<and>
   secondsLeft (tick (tick (focus_running\<lparr>secondsLeft := 1\<rparr>))) = 0 \<and>
   isRunning (tick (tick (focus_running\<lparr>secondsLeft := 1\<rparr>))) \<and>
   secondsLeft (countdownEffect accepting_backend (tick (tick (focus_running\<lparr>secondsLeft := 1\<rparr>))))
     = 300"
  using secondsLeft_never_negative
    [of "[LSelect Break, LStartPause, LTick, LTick, LTick, LTick]" "[]" "[]"
        "tick (focus_running\<lparr>secondsLeft := 1\<rparr>)"
        "tick (tick (focus_running\<lparr>secondsLeft := 1\<rparr>))" accepting_backend
        initial_local Focus Focus]
  by (simp add: run_local_def initial_local_def tick_def handleSessionSelect_def
        handleStartPauseTimer_def focus_running_def FOCUS_DURATION_def BREAK_DURATION_def)

section \<open>Skipping a session\<close>

text \<open>
  When nothing comes between its first and its last line, a skip in a focus session
  records exactly one row of 1500 seconds if a user is signed in, the backend is
  configured and the backend accepts the insert, and no row otherwise; a skip in a break
  records none.
\<close>

lemma skip_uninterrupted:
  "(sessionType st = Focus \<and> user st \<noteq> None \<and> isSupabaseConfigured be \<and> insertError be = None
      \<longrightarrow> records_one_focus_entry st (handleSkipSession be st)) \<and>
   (sessionType st = Focus \<and> (user st = None \<or> \<not> isSupabaseConfigured be \<or> insertError be \<noteq> None)
      \<longrightarrow> focus_entries (handleSkipSession be st) = focus_entries st) \<and>
   (sessionType st = Break \<longrightarrow> focus_entries (handleSkipSession be st) = focus_entries st)"
  by (auto simp: handleSkipSession_def handleSkipSession_start_def backendAnswers_def
        handleSkipSession_resume_def recordFocusSession_send_def
        recordFocusSession_answered_def records_one_focus_entry_def Let_def
        FOCUS_DURATION_def BREAK_DURATION_def split: option.splits)

text \<open>
  Claim C7 says that a skip performed during a focus session records exactly one focus
  entry of 1500 seconds.  The handler awaits the backend before it stops the timer.  A
  user is signed in, the backend accepts every insert, and the skip button is pressed in
  the last second of a focus session: the interval ticks while the handler waits, the
  countdown effect ends the session and records it as well, and the table holds two rows
  of 1500 seconds for the one session.
\<close>

theorem skip_races_countdown:
  "map row_duration (focus_entries (foldl step_remote (focus_running\<lparr>secondsLeft := 1\<rparr>)
       skip_in_last_second)) = [1500, 1500] \<and>
   sessionType (foldl step_remote (focus_running\<lparr>secondsLeft := 1\<rparr>) skip_in_last_second) = Break \<and>
   secondsLeft (foldl step_remote (focus_running\<lparr>secondsLeft := 1\<rparr>) skip_in_last_second) = 300 \<and>
   waiting (foldl step_remote (focus_running\<lparr>secondsLeft := 1\<rparr>) skip_in_last_second) = []"
  by (simp add: skip_in_last_second_def focus_running_def accepting_backend_def
        handleSkipSession_start_def handleSkipSession_resume_def backendAnswers_def
        countdownEffect_def recordFocusSession_send_def recordFocusSession_answered_def
        tick_def Let_def FOCUS_DURATION_def BREAK_DURATION_def)

section \<open>The day window\<close>

lemma foldl_duration:
  "foldl (\<lambda>acc entry. acc + duration entry) a entries = a + sum_list (map duration entries)"
  by (induction entries arbitrary: a) simp_all

lemma sumDurations_sum_list: "sumDurations entries = sum_list (map duration entries)"
  by (simp add: sumDurations_def foldl_duration)

lemma parseEntries_map_filter:
  "parseEntries rt entries =
     List.map_filter
       (\<lambda>e. map_option
               (\<lambda>d. \<lparr>entry_id = entry_id e, timestamp = timestamp e, duration = duration e,
                       date = d\<rparr>)
               (DateParse rt (timestamp e)))
       entries"
  by (induction entries) (simp_all add: List.map_filter_simps split: option.splits)

lemma day_entries_filter:
  "day_entries (productivityStats rt now entries) =
     filter (\<lambda>entry. getStartOfDay rt now \<le> date entry) (parseEntries rt entries)"
  by (simp add: productivityStats_def Let_def)

lemma day_total_sum:
  "day_totalSeconds (productivityStats rt now entries) =
     sum_list (map duration (day_entries (productivityStats rt now entries)))"
  by (simp add: productivityStats_def Let_def sumDurations_sum_list)

text \<open>
  \<^verbatim>\<open>getStartOfDay\<close> is the local midnight of the day its argument lies in: the one
  instant that is a midnight of the zone, is not after the argument, and is less than a
  day before it.
\<close>

lemma getStartOfDay_is_local_midnight:
  "getStartOfDay rt t \<le> t \<and> t < getStartOfDay rt t + msPerDay \<and>
   (getStartOfDay rt t + timezoneOffset rt) mod msPerDay = 0"
proof -
  have pos: "0 < msPerDay"
    by (simp add: msPerDay_def)
  have bounds: "0 \<le> (t + timezoneOffset rt) mod msPerDay"
    "(t + timezoneOffset rt) mod msPerDay < msPerDay"
    using pos by simp_all
  have eq: "getStartOfDay rt t + timezoneOffset rt =
            t + timezoneOffset rt - (t + timezoneOffset rt) mod msPerDay"
    by (simp add: getStartOfDay_def Let_def)
  have "(getStartOfDay rt t + timezoneOffset rt) mod msPerDay = 0"
    unfolding eq by (simp add: minus_mod_eq_mult_div)
  moreover have "getStartOfDay rt t \<le> t" "t < getStartOfDay rt t + msPerDay"
    using bounds eq by linarith+
  ultimately show ?thesis
    by simp
qed

lemma local_midnight_unique:
  assumes "s \<le> t" "t < s + msPerDay" "(s + timezoneOffset rt) mod msPerDay = 0"
  shows "s = getStartOfDay rt t"
proof -
  have pos: "0 < msPerDay"
    by (simp add: msPerDay_def)
  obtain q where q: "s + timezoneOffset rt = msPerDay * q"
    using assms(3) by (auto simp: mod_eq_0_iff_dvd)
  define r where "r = t - s"
  have r: "0 \<le> r" "r < msPerDay"
    using assms(1,2) by (simp_all add: r_def)
  have "t + timezoneOffset rt = r + msPerDay * q"
    using q by (simp add: r_def)
  then have "(t + timezoneOffset rt) mod msPerDay = r"
    using r by simp
  then show ?thesis
    by (simp add: getStartOfDay_def Let_def r_def)
qed

lemma demo_day_entries:
  "day_entries (productivityStats demo_runtime demo_now demo_entries) =
     [\<lparr>entry_id = ''today-0100'', timestamp = ''2024-10-04T01:00:00.000Z'', duration = 300,
        date = 1728003600000\<rparr>,
      \<lparr>entry_id = ''today-2300'', timestamp = ''2024-10-04T23:00:00.000Z'', duration = 600,
        date = 1728082800000\<rparr>]"
  by (simp add: day_entries_filter demo_clock_defs demo_now_def demo_entries_def)

lemma colombo_day_entries:
  "day_entries (productivityStats colombo_runtime colombo_now colombo_entries) =
     [\<lparr>entry_id = ''today-0100'', timestamp = ''2024-10-03T19:30:00.000Z'', duration = 300,
        date = 1727983800000\<rparr>,
      \<lparr>entry_id = ''today-2300'', timestamp = ''2024-10-04T17:30:00.000Z'', duration = 600,
        date = 1728063000000\<rparr>]"
  by (simp add: day_entries_filter demo_clock_defs colombo_now_def colombo_entries_def)

text \<open>
  Claim C3.  The day window of the aggregator holds exactly the focus entries whose
  timestamp is a date at or after the start of the current local day, each once and in
  the order of the log (an entry whose timestamp is no date is in no window), and the day
  total is the sum of their durations.  The start of the current local day is the
  midnight of the zone that is not after now and less than a day before it.  For the
  entries today 01:00 (300 s), today 23:00 (600 s) and yesterday 23:59 (900 s), looked
  at from today 12:00, the day total is 900: the entry of yesterday is left out, and the
  entry of 23:00, later than now, is counted.  So it is in UTC, and so it is in the zone
  five and a half hours ahead of UTC, where the entry of 01:00 is of the day before in
  UTC and the start of the day is 18:30 UTC of the day before.
\<close>

theorem day_window:
  "day_entries (productivityStats rt now entries) =
     filter (\<lambda>entry. getStartOfDay rt now \<le> date entry) (parseEntries rt entries) \<and>
   parseEntries rt entries =
     List.map_filter
       (\<lambda>e. map_option
               (\<lambda>d. \<lparr>entry_id = entry_id e, timestamp = timestamp e, duration = duration e,
                       date = d\<rparr>)
               (DateParse rt (timestamp e)))
       entries \<and>
   day_totalSeconds (productivityStats rt now entries) =
     sum_list (map duration (day_entries (productivityStats rt now entries))) \<and>
   getStartOfDay rt now \<le> now \<and> now < getStartOfDay rt now + msPerDay \<and>
   (getStartOfDay rt now + timezoneOffset rt) mod msPerDay = 0 \<and>
   msPerDay = 86400000 \<and>
   day_totalSeconds (productivityStats demo_runtime demo_now demo_entries) = 900 \<and>
   map entry_id (day_entries (productivityStats demo_runtime demo_now demo_entries)) =
     [''today-0100'', ''today-2300''] \<and>
   getStartOfDay demo_runtime demo_now = 1728000000000 \<and>
   day_totalSeconds (productivityStats colombo_runtime colombo_now colombo_entries) = 900 \<and>
   map entry_id (day_entries (productivityStats colombo_runtime colombo_now colombo_entries)) =
     [''today-0100'', ''today-2300''] \<and>
   getStartOfDay colombo_runtime colombo_now = 1727980200000"
proof -
  have "day_totalSeconds (productivityStats demo_runtime demo_now demo_entries) = 900"
    by (simp add: day_total_sum [of demo_runtime] demo_day_entries)
  moreover have
    "day_totalSeconds (productivityStats colombo_runtime colombo_now colombo_entries) = 900"
    by (simp add: day_total_sum [of colombo_runtime] colombo_day_entries)
  moreover have "getStartOfDay demo_runtime demo_now = 1728000000000"
    by (simp add: demo_clock_defs demo_now_def)
  moreover have "getStartOfDay colombo_runtime colombo_now = 1727980200000"
    by (simp add: demo_clock_defs colombo_now_def)
  moreover have "msPerDay = 86400000"
    by (simp add: msPerDay_def)
  moreover note day_entries_filter [of rt now entries] day_total_sum [of rt now entries]
    parseEntries_map_filter [of rt entries] getStartOfDay_is_local_midnight [of rt now]
  ultimately show ?thesis
    by (simp only: demo_day_entries colombo_day_entries) simp
qed

section \<open>The month breakdown\<close>

text \<open>
  No bucket of the month breakdown counts an entry later than the start of today: every
  period ends at the start of a day that is not after today.
\<close>

lemma monthLoop_ignores_later:
  "monthLoop todayStart (filter (\<lambda>entry. date entry \<le> todayStart) monthEntries) cursor weekIndex =
   monthLoop todayStart monthEntries cursor weekIndex"
proof (induction todayStart monthEntries cursor weekIndex rule: monthLoop.induct)
  case (1 todayStart monthEntries cursor weekIndex)
  show ?case
  proof (cases "cursor \<le> todayStart")
    case True
    have "filter (\<lambda>entry. cursor \<le> date entry \<and>
                   date entry \<le> (if todayStart < addDate cursor 6 then todayStart else addDate cursor 6))
            (filter (\<lambda>entry. date entry \<le> todayStart) monthEntries) =
          filter (\<lambda>entry. cursor \<le> date entry \<and>
                   date entry \<le> (if todayStart < addDate cursor 6 then todayStart else addDate cursor 6))
            monthEntries"
      by (induction monthEntries) auto
    with True "1.IH" show ?thesis
      by (subst (1 2) monthLoop.simps) (simp add: Let_def)
  next
    case False
    then show ?thesis
      by (subst (1 2) monthLoop.simps) simp
  qed
qed

text \<open>
  Claim C4 says that the buckets of the month breakdown count every entry of the month
  window exactly once, so that they sum to the month total.  The code ends each period at
  the first instant of its seventh day (\<^verbatim>\<open>periodEnd\<close> is a start of day, and the last
  period is capped at the start of today) and starts the next one a day later.  One focus
  session recorded today at noon, looked at from today at noon: the month total is 1500
  seconds, and each of the five buckets is 0.
\<close>

theorem month_breakdown_misses_today:
  "month_totalSeconds (productivityStats demo_runtime demo_now noon_entry) = 1500 \<and>
   map totalSeconds (month_breakdown (productivityStats demo_runtime demo_now noon_entry)) =
     [0, 0, 0, 0, 0]"
  by (simp add: productivityStats_def Let_def sumDurations_def demo_clock_defs demo_now_def
        noon_entry_def)

section \<open>What the sanitizers keep and drop\<close>

lemma clamp_in_range:
  "isFinite x \<Longrightarrow>
     (case Math_min (Fin 100) (Math_max (Fin 0) x) of
        Fin c \<Rightarrow> 0 \<le> c \<and> c \<le> 100
      | other \<Rightarrow> False)"
  by (cases x) simp_all

lemma kept_or_created_id_nonempty:
  "fst (case v of
          JStr s \<Rightarrow> if trim s \<noteq> [] then (s, k) else createId rt prefix k
        | other \<Rightarrow> createId rt prefix k) \<noteq> []"
  by (cases v) (auto simp: createId_def)

lemma kept_or_created_id_kept:
  "nonblank_string v \<Longrightarrow>
     JStr (fst (case v of
                  JStr s \<Rightarrow> if trim s \<noteq> [] then (s, k) else createId rt prefix k
                | other \<Rightarrow> createId rt prefix k)) = v"
  by (cases v) auto

lemma kept_or_default_text_nonempty:
  "fallback \<noteq> [] \<Longrightarrow>
     (case v of JStr s \<Rightarrow> if trim s \<noteq> [] then trim s else fallback | other \<Rightarrow> fallback) \<noteq> []"
  by (cases v) auto

lemma clamp_finite:
  "isFinite (if isFinite x then Math_min (Fin 100) (Math_max (Fin 0) x) else Fin 0)"
  by (cases x) simp_all

lemma is_object_iff: "is_object raw \<longleftrightarrow> (\<exists>xs. raw = JArr xs) \<or> (\<exists>ps. raw = JObj ps)"
  by (cases raw) (simp_all add: is_object_def)

text \<open>
  \<^verbatim>\<open>Number(x ?? d)\<close> with a number \<open>d\<close> returns exactly when \<^verbatim>\<open>Number(x)\<close> does.
\<close>

lemma converts_coalesce:
  "converts rt (coalesce x (JNum d)) \<longleftrightarrow> converts rt x"
  by (cases x) (simp_all add: coalesce_def converts_def)

lemma converts_Inr: "converts rt x \<Longrightarrow> \<exists>n. ToNumber rt x = Inr n"
  by (cases "ToNumber rt x") (simp_all add: converts_def)

lemma not_converts_Inl: "\<not> converts rt x \<Longrightarrow> \<exists>err. ToNumber rt x = Inl err"
  by (cases "ToNumber rt x") (simp_all add: converts_def)

lemma sanitizeExam_not_object:
  "\<not> is_object raw \<Longrightarrow> sanitizeExam rt raw index k = Inr (None, k)"
  by (auto simp: sanitizeExam_def is_object_def)

text \<open>
  The entry \<^verbatim>\<open>sanitizeExam\<close> builds for an object whose four numeric fields
  convert.
\<close>

lemma sanitizeExam_entry:
  assumes "is_object raw" and "exam_converts rt raw"
  shows "\<exists>ident p m e t c k1.
           sanitizeExam rt raw index k = Inr (Some (exam_object ident p m e t c), k1) \<and>
           ident \<noteq> [] \<and> p \<noteq> [] \<and> isFinite m \<and> isFinite e \<and> isFinite c \<and>
           (isFinite t \<or> t = js_add m e) \<and>
           (case c of Fin r \<Rightarrow> 0 \<le> r \<and> r \<le> 100 | other \<Rightarrow> False) \<and>
           (nonblank_string (getProp raw ''id'') \<longrightarrow> JStr ident = getProp raw ''id'')"
proof -
  have obj: "truthy raw" "typeof raw = ''object''"
    using assms(1) by (simp_all add: is_object_def)
  obtain mv where mv: "ToNumber rt (coalesce (getProp raw ''mcq'') (JNum (Fin 0))) = Inr mv"
    using assms converts_Inr [of rt "coalesce (getProp raw ''mcq'') (JNum (Fin 0))"]
    by (auto simp: exam_converts_def converts_coalesce)
  obtain ev where ev: "ToNumber rt (coalesce (getProp raw ''essay'') (JNum (Fin 0))) = Inr ev"
    using assms converts_Inr [of rt "coalesce (getProp raw ''essay'') (JNum (Fin 0))"]
    by (auto simp: exam_converts_def converts_coalesce)
  obtain tv where
    tv: "ToNumber rt (coalesce (getProp raw ''total'') (JNum (js_add mv ev))) = Inr tv"
    using assms converts_Inr [of rt "coalesce (getProp raw ''total'') (JNum (js_add mv ev))"]
    by (auto simp: exam_converts_def converts_coalesce)
  obtain cv where
    cv: "ToNumber rt (coalesce (getProp raw ''completion'') (JNum (Fin 0))) = Inr cv"
    using assms converts_Inr [of rt "coalesce (getProp raw ''completion'') (JNum (Fin 0))"]
    by (auto simp: exam_converts_def converts_coalesce)
  define made where
    "made = (case getProp raw ''id'' of
               JStr s \<Rightarrow> if trim s \<noteq> [] then (s, k) else createId rt ''exam'' k
             | other \<Rightarrow> createId rt ''exam'' k)"
  define p where
    "p = (case getProp raw ''paper'' of
            JStr s \<Rightarrow> if trim s \<noteq> [] then trim s else ''Paper '' @ string_of_nat (index + 1)
          | other \<Rightarrow> ''Paper '' @ string_of_nat (index + 1))"
  define m where "m = (if isFinite mv then mv else Fin 0)"
  define e where "e = (if isFinite ev then ev else Fin 0)"
  define t where "t = (if isFinite tv then tv else js_add m e)"
  define c where "c = (if isFinite cv then Math_min (Fin 100) (Math_max (Fin 0) cv) else Fin 0)"
  have "sanitizeExam rt raw index k = Inr (Some (exam_object (fst made) p m e t c), snd made)"
    unfolding sanitizeExam_def Let_def case_prod_beta made_def p_def m_def e_def t_def c_def
    using obj mv ev tv cv by (simp split del: if_split)
  moreover have "fst made \<noteq> []"
    unfolding made_def by (rule kept_or_created_id_nonempty)
  moreover have "p \<noteq> []"
    unfolding p_def by (rule kept_or_default_text_nonempty) simp
  moreover have "isFinite m" "isFinite e"
    by (simp_all add: m_def e_def)
  moreover have "isFinite c"
    unfolding c_def by (rule clamp_finite)
  moreover have "isFinite t \<or> t = js_add m e"
    by (simp add: t_def)
  moreover have "case c of Fin r \<Rightarrow> 0 \<le> r \<and> r \<le> 100 | other \<Rightarrow> False"
    using clamp_in_range [of cv] by (simp add: c_def)
  moreover have "nonblank_string (getProp raw ''id'') \<longrightarrow> JStr (fst made) = getProp raw ''id''"
    unfolding made_def
    using kept_or_created_id_kept
            [where v = "getProp raw ''id''" and k = k and rt = rt and prefix = "''exam''"]
    by blast
  ultimately show ?thesis
    by blast
qed

lemma sanitizeExam_object:
  assumes "is_object raw" and "exam_converts rt raw"
  shows "\<exists>exam k1. sanitizeExam rt raw index k = Inr (Some exam, k1) \<and>
           completion_in_range exam \<and> id_nonempty exam \<and> keeps_id raw exam"
proof -
  from sanitizeExam_entry [OF assms, of index k] obtain ident p m e t c k1 where
    r: "sanitizeExam rt raw index k = Inr (Some (exam_object ident p m e t c), k1)" and
    i: "ident \<noteq> []" and
    c: "case c of Fin r \<Rightarrow> 0 \<le> r \<and> r \<le> 100 | other \<Rightarrow> False" and
    kept: "nonblank_string (getProp raw ''id'') \<longrightarrow> JStr ident = getProp raw ''id''"
    by blast
  have "completion_in_range (exam_object ident p m e t c)"
    using c by (simp add: completion_in_range_def)
  moreover have "id_nonempty (exam_object ident p m e t c)"
    using i by (simp add: id_nonempty_def)
  moreover have "keeps_id raw (exam_object ident p m e t c)"
    using kept by (simp add: keeps_id_def)
  ultimately show ?thesis
    using r by blast
qed

text \<open>
  An object one of whose four numeric fields does not convert: the exception leaves
  \<^verbatim>\<open>sanitizeExam\<close>.
\<close>

lemma sanitizeExam_throws:
  assumes "is_object raw" and "\<not> exam_converts rt raw"
  shows "\<exists>err. sanitizeExam rt raw index k = Inl err"
proof -
  have obj: "truthy raw" "typeof raw = ''object''"
    using assms(1) by (simp_all add: is_object_def)
  have "\<exists>err. (case ToNumber rt (coalesce (getProp raw ''mcq'') (JNum (Fin 0))) of
                  Inl err \<Rightarrow> Inl err
                | Inr mcqValue \<Rightarrow>
                  case ToNumber rt (coalesce (getProp raw ''essay'') (JNum (Fin 0))) of
                    Inl err \<Rightarrow> Inl err
                  | Inr essayValue \<Rightarrow>
                    case ToNumber rt (coalesce (getProp raw ''total'')
                                        (JNum (js_add mcqValue essayValue))) of
                      Inl err \<Rightarrow> Inl err
                    | Inr totalValue \<Rightarrow>
                      case ToNumber rt (coalesce (getProp raw ''completion'') (JNum (Fin 0))) of
                        Inl err \<Rightarrow> Inl err
                      | Inr completionValue \<Rightarrow> Inr (f mcqValue essayValue totalValue completionValue))
               = Inl err" for f :: "jsnum \<Rightarrow> jsnum \<Rightarrow> jsnum \<Rightarrow> jsnum \<Rightarrow> jsval option \<times> nat"
  proof -
    have "\<not> converts rt (coalesce (getProp raw ''mcq'') (JNum (Fin 0))) \<or>
          \<not> converts rt (coalesce (getProp raw ''essay'') (JNum (Fin 0))) \<or>
          (\<forall>d. \<not> converts rt (coalesce (getProp raw ''total'') (JNum d))) \<or>
          \<not> converts rt (coalesce (getProp raw ''completion'') (JNum (Fin 0)))"
      using assms by (auto simp: exam_converts_def converts_coalesce)
    then show ?thesis
      by (auto simp: converts_def split: sum.splits)
  qed
  then show ?thesis
    unfolding sanitizeExam_def Let_def case_prod_beta using obj
    by (simp split del: if_split)
qed

text \<open>
  So \<^verbatim>\<open>sanitizeExam\<close> answers \<^verbatim>\<open>null\<close> for exactly the values that are not
  objects (arrays count as objects), and throws for exactly the objects one of whose
  numeric fields does not convert; every other object yields an entry.
\<close>

lemma sanitizeExam_null_iff:
  "(\<exists>k1. sanitizeExam rt raw index k = Inr (None, k1)) \<longleftrightarrow> \<not> is_object raw"
proof (cases "is_object raw")
  case False
  then show ?thesis
    by (simp add: sanitizeExam_not_object)
next
  case True
  show ?thesis
  proof (cases "exam_converts rt raw")
    case True
    with \<open>is_object raw\<close> sanitizeExam_object [of raw rt index k] show ?thesis
      by auto
  next
    case False
    with \<open>is_object raw\<close> sanitizeExam_throws [of raw rt index k] show ?thesis
      by auto
  qed
qed

lemma sanitizeExam_throws_iff:
  "(\<exists>err. sanitizeExam rt raw index k = Inl err) \<longleftrightarrow> is_object raw \<and> \<not> exam_converts rt raw"
proof (cases "is_object raw")
  case False
  then show ?thesis
    by (simp add: sanitizeExam_not_object)
next
  case True
  show ?thesis
  proof (cases "exam_converts rt raw")
    case True
    with \<open>is_object raw\<close> sanitizeExam_object [of raw rt index k] show ?thesis
      by auto
  next
    case False
    with \<open>is_object raw\<close> sanitizeExam_throws [of raw rt index k] show ?thesis
      by auto
  qed
qed

lemma sanitizeExams_ok:
  "list_all (exam_converts rt) xs \<Longrightarrow>
     \<exists>exams k2. sanitizeExams rt xs index k = Inr (exams, k2) \<and>
       list_all completion_in_range exams \<and>
       list_all2 keeps_id (filter is_object xs) exams"
proof (induction xs arbitrary: index k)
  case Nil
  show ?case by simp
next
  case (Cons raw rest)
  then have conv: "exam_converts rt raw" and rest: "list_all (exam_converts rt) rest"
    by simp_all
  show ?case
  proof (cases "is_object raw")
    case False
    from Cons.IH [OF rest, of "index + 1" k] obtain others k2 where
      "sanitizeExams rt rest (index + 1) k = Inr (others, k2)"
      "list_all completion_in_range others"
      "list_all2 keeps_id (filter is_object rest) others"
      by blast
    with False show ?thesis
      by (simp add: sanitizeExam_not_object)
  next
    case True
    from sanitizeExam_object [OF True conv, of index k] obtain exam k1 where
      e: "sanitizeExam rt raw index k = Inr (Some exam, k1)"
         "completion_in_range exam" "keeps_id raw exam"
      by blast
    from Cons.IH [OF rest, of "index + 1" k1] obtain others k2 where
      "sanitizeExams rt rest (index + 1) k1 = Inr (others, k2)"
      "list_all completion_in_range others"
      "list_all2 keeps_id (filter is_object rest) others"
      by blast
    with True e show ?thesis
      by simp
  qed
qed

lemma sanitizeSubject_not_object:
  "\<not> is_object raw \<Longrightarrow> sanitizeSubject rt raw index k = Inr (None, k)"
  by (auto simp: sanitizeSubject_def is_object_def)

lemma sanitizeSubject_object:
  assumes "is_object raw" and "list_all (exam_converts rt) (exams_of raw)"
  shows "\<exists>subject k1. sanitizeSubject rt raw index k = Inr (Some subject, k1) \<and>
           id_nonempty subject \<and> list_all completion_in_range (exams_of subject) \<and>
           sanitized_from raw subject"
proof -
  have obj: "truthy raw" "typeof raw = ''object''"
    using assms(1) by (simp_all add: is_object_def)
  define made where
    "made = (case getProp raw ''id'' of
               JStr s \<Rightarrow> if trim s \<noteq> [] then (s, k) else createId rt ''subject'' k
             | other \<Rightarrow> createId rt ''subject'' k)"
  define n where
    "n = (case getProp raw ''name'' of
            JStr s \<Rightarrow> if trim s \<noteq> [] then trim s else ''Subject '' @ string_of_nat (index + 1)
          | other \<Rightarrow> ''Subject '' @ string_of_nat (index + 1))"
  from sanitizeExams_ok [OF assms(2), of 0 "snd made"] obtain exams k2 where
    e: "sanitizeExams rt (exams_of raw) 0 (snd made) = Inr (exams, k2)" and
    range: "list_all completion_in_range exams" and
    kept: "list_all2 keeps_id (filter is_object (exams_of raw)) exams"
    by blast
  have "sanitizeSubject rt raw index k = Inr (Some (subject_object (fst made) n exams), k2)"
    unfolding sanitizeSubject_def Let_def case_prod_beta made_def [symmetric] n_def [symmetric]
    using obj e by (simp add: exams_of_def split del: if_split)
  moreover have "id_nonempty (subject_object (fst made) n exams)"
    using kept_or_created_id_nonempty
            [where v = "getProp raw ''id''" and k = k and rt = rt and prefix = "''subject''"]
    by (simp add: id_nonempty_def made_def)
  moreover have "list_all completion_in_range (exams_of (subject_object (fst made) n exams))"
    using range by (simp add: exams_of_def)
  moreover have "sanitized_from raw (subject_object (fst made) n exams)"
    using kept kept_or_created_id_kept
            [where v = "getProp raw ''id''" and k = k and rt = rt and prefix = "''subject''"]
    by (simp add: sanitized_from_def keeps_id_def exams_of_def made_def)
  ultimately show ?thesis
    by blast
qed

text \<open>
  \<^verbatim>\<open>sanitizeSubject\<close> answers \<^verbatim>\<open>null\<close> only for the values that are not
  objects.
\<close>

lemma sanitizeSubject_null_only:
  assumes "sanitizeSubject rt raw index k = Inr (None, k1)"
  shows "\<not> is_object raw"
proof
  assume obj: "is_object raw"
  then have "truthy raw" "typeof raw = ''object''"
    by (simp_all add: is_object_def)
  with assms show False
    by (simp add: sanitizeSubject_def Let_def case_prod_beta split: sum.splits)
qed

lemma sanitizeSubjects_ok:
  "list_all (\<lambda>subject. list_all (exam_converts rt) (exams_of subject)) raws \<Longrightarrow>
     \<exists>subjects k1. sanitizeSubjects rt raws index k = Inr (subjects, k1) \<and>
       list_all (\<lambda>subject. id_nonempty subject \<and> list_all completion_in_range (exams_of subject))
         subjects \<and>
       list_all2 sanitized_from (filter is_object raws) subjects"
proof (induction raws arbitrary: index k)
  case Nil
  show ?case by simp
next
  case (Cons raw rest)
  then have conv: "list_all (exam_converts rt) (exams_of raw)" and
    rest: "list_all (\<lambda>subject. list_all (exam_converts rt) (exams_of subject)) rest"
    by simp_all
  show ?case
  proof (cases "is_object raw")
    case False
    from Cons.IH [OF rest, of "index + 1" k] obtain others k2 where
      "sanitizeSubjects rt rest (index + 1) k = Inr (others, k2)"
      "list_all (\<lambda>subject. id_nonempty subject \<and> list_all completion_in_range (exams_of subject))
         others"
      "list_all2 sanitized_from (filter is_object rest) others"
      by blast
    with False show ?thesis
      by (simp add: sanitizeSubject_not_object)
  next
    case True
    from sanitizeSubject_object [OF True conv, of index k] obtain subject k1 where
      s: "sanitizeSubject rt raw index k = Inr (Some subject, k1)"
         "id_nonempty subject" "list_all completion_in_range (exams_of subject)"
         "sanitized_from raw subject"
      by blast
    from Cons.IH [OF rest, of "index + 1" k1] obtain others k2 where
      "sanitizeSubjects rt rest (index + 1) k1 = Inr (others, k2)"
      "list_all (\<lambda>subject. id_nonempty subject \<and> list_all completion_in_range (exams_of subject))
         others"
      "list_all2 sanitized_from (filter is_object rest) others"
      by blast
    with True s show ?thesis
      by simp
  qed
qed

lemma huge_overflows: "round_overflow (2 * huge) = PosInf"
proof -
  have "2 * huge = 2 ^ 1024"
    by (simp add: huge_def)
  moreover have "(0::rat) < 2 ^ 970"
    by simp
  ultimately show ?thesis
    by (simp add: round_overflow_def overflow_bound_def del: zero_less_power)
qed

text \<open>
  Claim C10 says that \<^verbatim>\<open>sanitizeExam\<close> answers \<^verbatim>\<open>null\<close> exactly for the values
  that are not objects and that the entry it builds for an object has a non-empty paper
  and id, a clamped completion and finite numeric fields.  The raw exam whose \<^verbatim>\<open>mcq\<close>
  and \<^verbatim>\<open>essay\<close> are both \<open>2^1023\<close> and which has no \<^verbatim>\<open>total\<close> gets the total
  \<^verbatim>\<open>Infinity\<close>: the default \<^verbatim>\<open>mcqValue + essayValue\<close> overflows, fails the
  \<^verbatim>\<open>Number.isFinite\<close> test, and the fallback \<^verbatim>\<open>mcq + essay\<close> that replaces it
  is the same sum.  (What holds of the claim is in \<open>sanitizeExam_null_iff\<close>,
  \<open>sanitizeExam_entry\<close>, \<open>sanitizeExam_throws_iff\<close> and
  \<open>sanitizeSubject_null_only\<close>.)
\<close>

theorem sanitizeExam_total_overflow:
  "sanitizeExam rt huge_exam 0 k =
     Inr (Some (exam_object (''exam-'' @ randomId rt k) ''Paper 1'' (Fin huge) (Fin huge) PosInf
                  (Fin 0)),
          Suc k)"
  by (simp add: sanitizeExam_def huge_exam_def coalesce_def Let_def huge_overflows createId_def
        string_of_nat_digit digitChar_def)

theorem sanitizeExam_total_overflow_witness:
  "map_sum id (\<lambda>r. map_option (\<lambda>exam. getProp exam ''total'') (fst r))
     (sanitizeExam demo_runtime huge_exam 0 0) = Inr (Some (JNum PosInf))"
  using sanitizeExam_total_overflow [of demo_runtime 0]
  by (simp add: exam_object_def)

section \<open>The normalizer on every input\<close>

lemma default_exams_range: "list_all completion_in_range (map cloneExam DEFAULT_EXAMS)"
  by (simp add: DEFAULT_EXAMS_def cloneExam_def completion_in_range_def)

lemma createDefaultState_repaired: "repaired (fst (createDefaultState rt k))"
  by (simp add: createDefaultState_def createId_def repaired_def subjects_of_def exams_of_def
        id_nonempty_def active_is_member_def default_exams_range)

lemma nonblank_nonempty: "nonblank_string v \<Longrightarrow> \<exists>s. v = JStr s \<and> s \<noteq> []"
  by (cases v) auto

lemma valid_state_members:
  assumes "isValidAppState v"
  shows "subjects_of v \<noteq> [] \<and> list_all id_nonempty (subjects_of v) \<and> active_is_member v"
proof -
  from assms obtain subjects where
    s: "getProp v ''subjects'' = JArr subjects" and ne: "subjects \<noteq> []" and
    all: "list_all isValidSubject subjects" and
    ex: "list_ex (\<lambda>subject. getProp subject ''id'' = getProp v ''activeSubjectId'') subjects"
    by (auto simp: isValidAppState_def split: if_splits jsval.splits)
  have "list_all id_nonempty subjects"
    using all
    by (auto simp: list_all_iff isValidSubject_def id_nonempty_def dest!: nonblank_nonempty)
  with s ne ex show ?thesis
    by (simp add: subjects_of_def active_is_member_def)
qed

text \<open>The branch for an object with a \<^verbatim>\<open>subjects\<close> array (lines 243-276).\<close>

lemma repair_subjects:
  assumes invalid: "\<not> isValidAppState v"
    and branch: "truthy v \<and> typeof v = ''object'' \<and> \<not> Array_isArray v \<and>
                 Array_isArray (getProp v ''subjects'')"
    and quiet: "never_throws rt v"
  shows "\<exists>st k1. normalizeStoredValue rt v k = Inr (st, k1) \<and> repaired st \<and>
           (filter is_object (subjects_of v) = [] \<or>
            list_all2 sanitized_from (filter is_object (subjects_of v)) (subjects_of st))"
proof -
  define raws where "raws = (case getProp v ''subjects'' of JArr xs \<Rightarrow> xs | other \<Rightarrow> [])"
  have raws: "subjects_of v = raws"
    by (simp add: raws_def subjects_of_def)
  have "list_all (\<lambda>subject. list_all (exam_converts rt) (exams_of subject)) raws"
    using quiet by (simp add: never_throws_def raws)
  from sanitizeSubjects_ok [OF this, of 0 k] obtain subjects k1 where
    ss: "sanitizeSubjects rt raws 0 k = Inr (subjects, k1)" and
    ok: "list_all (\<lambda>subject. id_nonempty subject \<and>
                     list_all completion_in_range (exams_of subject)) subjects" and
    kept: "list_all2 sanitized_from (filter is_object raws) subjects"
    by blast
  show ?thesis
  proof (cases subjects)
    case Nil
    have "normalizeStoredValue rt v k =
            Inr (fst (createDefaultState rt k1), snd (createDefaultState rt k1))"
      using invalid branch ss Nil by (simp add: normalizeStoredValue_def raws_def)
    moreover have "filter is_object (subjects_of v) = []"
      using kept Nil by (simp add: raws)
    ultimately show ?thesis
      using createDefaultState_repaired [of rt k1] by blast
  next
    case (Cons first others)
    define active where
      "active = (if nonblank_string (getProp v ''activeSubjectId'')
                 then getProp v ''activeSubjectId'' else getProp first ''id'')"
    define active2 where
      "active2 = (if \<not> list_ex (\<lambda>subject. getProp subject ''id'' = active) subjects
                  then getProp first ''id'' else active)"
    have result: "normalizeStoredValue rt v k = Inr (state_object subjects active2, k1)"
      using invalid branch ss Cons
      by (simp add: normalizeStoredValue_def raws_def Let_def active2_def active_def)
    have "list_ex (\<lambda>subject. getProp subject ''id'' = active2) subjects"
      using Cons by (auto simp: active2_def)
    then have "repaired (state_object subjects active2)"
      using ok Cons
      by (simp add: repaired_def subjects_of_def active_is_member_def list_all_iff)
    moreover have
      "list_all2 sanitized_from (filter is_object (subjects_of v))
         (subjects_of (state_object subjects active2))"
      using kept by (simp add: raws) (simp add: subjects_of_def)
    ultimately show ?thesis
      using result by blast
  qed
qed

text \<open>The branch for a bare array (lines 278-288).\<close>

lemma repair_array:
  assumes quiet: "never_throws rt (JArr xs)"
  shows "\<exists>st k1 s. normalizeStoredValue rt (JArr xs) k = Inr (st, k1) \<and> repaired st \<and>
           subjects_of st = [s] \<and> list_all2 keeps_id (filter is_object xs) (exams_of s)"
proof -
  have "list_all (exam_converts rt) xs"
    using quiet by (simp add: never_throws_def elements_of_def)
  from sanitizeExams_ok [OF this, of 0 "Suc k"] obtain exams k2 where
    e: "sanitizeExams rt xs 0 (Suc k) = Inr (exams, k2)" and
    range: "list_all completion_in_range exams" and
    kept: "list_all2 keeps_id (filter is_object xs) exams"
    by blast
  define s where "s = subject_object (''subject-'' @ randomId rt k) ''Physics'' exams"
  have "normalizeStoredValue rt (JArr xs) k =
          Inr (state_object [s] (JStr (''subject-'' @ randomId rt k)), k2)"
    using e by (simp add: normalizeStoredValue_def isValidAppState_def createId_def s_def)
  moreover have "repaired (state_object [s] (JStr (''subject-'' @ randomId rt k)))"
    using range
    by (simp add: repaired_def subjects_of_def exams_of_def id_nonempty_def
          active_is_member_def s_def)
  moreover have "subjects_of (state_object [s] (JStr (''subject-'' @ randomId rt k))) = [s]"
    by (simp add: subjects_of_def)
  moreover have "list_all2 keeps_id (filter is_object xs) (exams_of s)"
    using kept by (simp add: exams_of_def s_def)
  ultimately show ?thesis
    by blast
qed

text \<open>Every other value that is not valid gets the default state (line 290).\<close>

lemma repair_default:
  assumes "\<not> isValidAppState v"
    and "\<not> (truthy v \<and> typeof v = ''object'' \<and> \<not> Array_isArray v \<and>
            Array_isArray (getProp v ''subjects''))"
    and "\<not> Array_isArray v"
  shows "\<exists>st k1. normalizeStoredValue rt v k = Inr (st, k1) \<and> repaired st \<and>
           subjects_of v = []"
proof -
  have "normalizeStoredValue rt v k =
          Inr (fst (createDefaultState rt k), snd (createDefaultState rt k))"
    using assms by (cases v) (simp_all add: normalizeStoredValue_def)
  moreover have "subjects_of v = []"
  proof (cases v)
    case (JObj ps)
    then have "\<not> Array_isArray (getProp v ''subjects'')"
      using assms(2) by simp
    then show ?thesis
      by (cases "getProp v ''subjects''") (simp_all add: subjects_of_def)
  qed (simp_all add: subjects_of_def)
  ultimately show ?thesis
    using createDefaultState_repaired [of rt k] by blast
qed

text \<open>
  Claim C1 as stated fails in three ways.  A state that passes \<^verbatim>\<open>isValidAppState\<close>
  is returned as it is, so a completion of 150 stays 150.  The sanitizers keep every
  non-blank id the input gives: of a stored value in which two subjects share the id
  \<^verbatim>\<open>a\<close> and two exams of the first subject the id \<^verbatim>\<open>e\<close>, the result has two
  subjects with the id \<^verbatim>\<open>a\<close>, the first with two exams of id \<^verbatim>\<open>e\<close>.  And
  \<^verbatim>\<open>Number(raw.mcq ?? 0)\<close> throws a TypeError for an \<^verbatim>\<open>mcq\<close> that is an object
  with a property \<^verbatim>\<open>toString\<close> of its own, which nothing catches: for the stored JSON
  \<^verbatim>\<open>{"subjects":[{"exams":[{"mcq":{"toString":null}}]}]}\<close> the normalizer returns
  no state.
\<close>

theorem normalize_counterexample:
  "normalizeStoredValue demo_runtime (state_with_completion (JNum (Fin 150))) 0 =
     Inr (state_with_completion (JNum (Fin 150)), 0) \<and>
   \<not> claimed_state_invariants (state_with_completion (JNum (Fin 150))) \<and>
   normalizeStoredValue demo_runtime duplicate_ids_input 0 = Inr (duplicate_ids_output, 0) \<and>
   ids_of (subjects_of duplicate_ids_output) = [JStr ''a'', JStr ''a''] \<and>
   map (\<lambda>subject. ids_of (exams_of subject)) (subjects_of duplicate_ids_output) =
     [[JStr ''e'', JStr ''e''], []] \<and>
   \<not> claimed_state_invariants duplicate_ids_output \<and>
   normalizeStoredValue demo_runtime poisoned_input 0 = Inl TypeError"
  by (simp add: state_with_completion_def duplicate_ids_input_def duplicate_ids_output_def
        poisoned_input_def normalizer_defs claimed_state_invariants_def subjects_of_def
        exams_of_def ids_of_def completion_in_range_def round_overflow_def overflow_bound_def)

text \<open>
  Claim C1, amended.  For every input value (also \<^verbatim>\<open>undefined\<close>, \<^verbatim>\<open>null\<close>,
  values that are not objects, bare arrays and subjects arrays that are malformed in
  part) in which no raw exam makes a \<^verbatim>\<open>Number(...)\<close> call of \<^verbatim>\<open>sanitizeExam\<close>
  throw, \<^verbatim>\<open>normalizeStoredValue\<close> returns, without throwing, a state in which
  \<^verbatim>\<open>subjects\<close> is not empty, every subject has a non-empty id, and
  \<^verbatim>\<open>activeSubjectId\<close> equals the id of some member of \<^verbatim>\<open>subjects\<close>; and when the
  input does not pass \<^verbatim>\<open>isValidAppState\<close>, every exam's completion lies in
  \<open>[0, 100]\<close>.  Ids are kept as the input gives them and are not made unique: a valid
  input is returned as it is; of an input that is not valid and whose \<^verbatim>\<open>subjects\<close>
  array holds an object, the result's subjects are those objects sanitized, in order,
  each with the raw subject's id when that is a non-blank string, and its exams are the
  raw subject's object-shaped exams, in order, each with the raw exam's id when that is a
  non-blank string; of a bare array, the result has one subject, whose exams are the
  object-shaped elements, in order, each with its raw id when that is a non-blank string.
\<close>

theorem normalize_repairs:
  "never_throws rt v \<Longrightarrow>
     \<exists>st k1. normalizeStoredValue rt v k = Inr (st, k1) \<and>
       subjects_of st \<noteq> [] \<and>
       list_all id_nonempty (subjects_of st) \<and>
       active_is_member st \<and>
       (\<not> isValidAppState v \<longrightarrow>
          list_all (\<lambda>subject. list_all completion_in_range (exams_of subject)) (subjects_of st)) \<and>
       (isValidAppState v \<longrightarrow> st = v) \<and>
       (\<not> isValidAppState v \<and> filter is_object (subjects_of v) \<noteq> [] \<longrightarrow>
          list_all2 sanitized_from (filter is_object (subjects_of v)) (subjects_of st)) \<and>
       (Array_isArray v \<longrightarrow>
          (\<exists>s. subjects_of st = [s] \<and>
                list_all2 keeps_id (filter is_object (elements_of v)) (exams_of s)))"
proof (cases "isValidAppState v")
  case True
  then have "normalizeStoredValue rt v k = Inr (v, k)"
    by (simp add: normalizeStoredValue_def)
  moreover have "\<not> Array_isArray v"
    using True by (auto simp: isValidAppState_def split: if_splits)
  ultimately show ?thesis
    using True valid_state_members [of v] by simp
next
  case invalid: False
  assume quiet: "never_throws rt v"
  show ?thesis
  proof (cases "truthy v \<and> typeof v = ''object'' \<and> \<not> Array_isArray v \<and>
                Array_isArray (getProp v ''subjects'')")
    case True
    from repair_subjects [OF invalid True quiet, of k] obtain st k1 where
      "normalizeStoredValue rt v k = Inr (st, k1)" "repaired st"
      "filter is_object (subjects_of v) = [] \<or>
       list_all2 sanitized_from (filter is_object (subjects_of v)) (subjects_of st)"
      by blast
    with invalid True show ?thesis
      by (auto simp: repaired_def)
  next
    case other: False
    show ?thesis
    proof (cases v)
      case (JArr xs)
      from repair_array [of rt xs k] quiet JArr obtain st k1 s where
        "normalizeStoredValue rt v k = Inr (st, k1)" "repaired st" "subjects_of st = [s]"
        "list_all2 keeps_id (filter is_object xs) (exams_of s)"
        by blast
      with invalid JArr show ?thesis
        by (auto simp: repaired_def elements_of_def subjects_of_def)
    next
      case JUndefined
      with repair_default [OF invalid other, of rt k] invalid show ?thesis
        by (auto simp: repaired_def)
    next
      case JNull
      with repair_default [OF invalid other, of rt k] invalid show ?thesis
        by (auto simp: repaired_def)
    next
      case (JBool b)
      with repair_default [OF invalid other, of rt k] invalid show ?thesis
        by (auto simp: repaired_def)
    next
      case (JNum n)
      with repair_default [OF invalid other, of rt k] invalid show ?thesis
        by (auto simp: repaired_def)
    next
      case (JStr s)
      with repair_default [OF invalid other, of rt k] invalid show ?thesis
        by (auto simp: repaired_def)
    next
      case (JObj ps)
      with repair_default [OF invalid other, of rt k] invalid show ?thesis
        by (auto simp: repaired_def)
    qed
  qed
qed

text \<open>
  The stored value with the duplicate ids is not valid and makes no conversion throw:
  the result is a state with these properties, and its two subjects come from the two
  raw subjects.
\<close>

theorem normalize_repairs_witness:
  "never_throws demo_runtime duplicate_ids_input \<and>
   \<not> isValidAppState duplicate_ids_input \<and>
   filter is_object (subjects_of duplicate_ids_input) \<noteq> [] \<and>
   (\<exists>st k1. normalizeStoredValue demo_runtime duplicate_ids_input 0 = Inr (st, k1) \<and>
      subjects_of st \<noteq> [] \<and>
      list_all id_nonempty (subjects_of st) \<and>
      active_is_member st \<and>
      list_all (\<lambda>subject. list_all completion_in_range (exams_of subject)) (subjects_of st) \<and>
      list_all2 sanitized_from (filter is_object (subjects_of duplicate_ids_input))
        (subjects_of st))"
proof -
  have quiet: "never_throws demo_runtime duplicate_ids_input"
    by (simp add: never_throws_def duplicate_ids_input_def subjects_of_def exams_of_def
          elements_of_def exam_converts_def converts_def is_object_def)
  have invalid: "\<not> isValidAppState duplicate_ids_input"
    by (simp add: duplicate_ids_input_def isValidAppState_def isValidSubject_def
          isValidExam_def trim_def isWhiteSpace_def)
  have objects: "filter is_object (subjects_of duplicate_ids_input) \<noteq> []"
    by (simp add: duplicate_ids_input_def subjects_of_def is_object_def)
  from normalize_repairs [OF quiet, of 0] quiet invalid objects show ?thesis
    by blast
qed

section \<open>The round trip through JSON\<close>

lemma json_copy_representable: "json_representable v \<Longrightarrow> json_copy v = v"
proof (induction v)
  case (JArr xs)
  then have "\<forall>x \<in> set xs. json_copy x = x \<and> x \<noteq> JUndefined"
    by (auto simp: list_all_iff)
  then have "map (\<lambda>v. if v = JUndefined then JNull else v) (map json_copy xs) = xs"
    by (induction xs) auto
  then show ?case by simp
next
  case (JObj ps)
  then have "\<forall>p \<in> set ps. json_copy (snd p) = snd p \<and> snd p \<noteq> JUndefined"
    by (fastforce simp: list_all_iff)
  then have "filter (\<lambda>p. snd p \<noteq> JUndefined) (map (map_prod id json_copy) ps) = ps"
    by (induction ps) auto
  then show ?case by simp
qed simp_all

text \<open>
  Claim C8 as stated fails: \<^verbatim>\<open>isValidExam\<close> asks of \<^verbatim>\<open>completion\<close> only that
  \<^verbatim>\<open>typeof\<close> is \<^verbatim>\<open>"number"\<close>, which \<^verbatim>\<open>NaN\<close> is.  JSON writes \<^verbatim>\<open>NaN\<close> as
  \<^verbatim>\<open>null\<close>; the parsed state is no longer valid, and the sanitizer makes the
  completion 0.
\<close>

theorem roundtrip_counterexample:
  "isValidAppState (state_with_completion (JNum NaN)) \<and>
   json_roundtrip (state_with_completion (JNum NaN)) = Some (state_with_completion JNull) \<and>
   normalizeStoredValue demo_runtime (state_with_completion JNull) 0 =
     Inr (state_with_completion (JNum (Fin 0)), 0) \<and>
   normalize_after_roundtrip demo_runtime (state_with_completion (JNum NaN)) 0 =
     Inr (state_with_completion (JNum (Fin 0))) \<and>
   normalize_after_roundtrip demo_runtime (state_with_completion (JNum NaN)) 0 \<noteq>
     Inr (state_with_completion (JNum NaN))"
  by (simp add: state_with_completion_def normalize_after_roundtrip_def json_roundtrip_def
        normalizer_defs)

text \<open>
  Claim C8, amended.  For every state that satisfies \<^verbatim>\<open>isValidAppState\<close> and that
  JSON can represent (every number in it is finite and nothing in it is
  \<^verbatim>\<open>undefined\<close>), normalizing its JSON round trip yields a state deep-equal to the
  original.
\<close>

theorem roundtrip_representable:
  "isValidAppState x \<Longrightarrow> json_representable x \<Longrightarrow> normalize_after_roundtrip rt x k = Inr x"
  by (cases x)
     (simp_all add: normalize_after_roundtrip_def json_roundtrip_def json_copy_representable
        normalizeStoredValue_def del: json_copy.simps)

theorem roundtrip_representable_witness:
  "isValidAppState (state_with_completion (JNum (Fin 150))) \<and>
   json_representable (state_with_completion (JNum (Fin 150))) \<and>
   normalize_after_roundtrip demo_runtime (state_with_completion (JNum (Fin 150))) 0 =
     Inr (state_with_completion (JNum (Fin 150)))"
  using roundtrip_representable [of "state_with_completion (JNum (Fin 150))" demo_runtime 0]
  by (simp add: state_with_completion_def normalizer_defs)

section \<open>The payload builder: the total\<close>

text \<open>
  What holds of the total in the local variant: a total that is given and reads as a
  finite number is returned floored at 0, and a total that is given but does not read as
  a finite number is replaced by the sum of the returned \<^verbatim>\<open>mcq\<close> and
  \<^verbatim>\<open>essay\<close>.  In both variants the returned \<^verbatim>\<open>mcq\<close> and \<^verbatim>\<open>essay\<close> are
  finite and not negative.
\<close>

lemma floored_nonneg:
  "\<exists>q. (if isFinite x then Math_max (Fin 0) x else Fin 0) = Fin q \<and> 0 \<le> q"
  by (cases x) simp_all

lemma local_mcq_essay_floored:
  "prepareExamPayload rt form = Some payload \<Longrightarrow>
     (\<exists>m. mcq payload = Fin m \<and> 0 \<le> m) \<and> (\<exists>e. essay payload = Fin e \<and> 0 \<le> e)"
  using floored_nonneg [of "StringToNumber rt (form_mcq form)"]
        floored_nonneg [of "StringToNumber rt (form_essay form)"]
  by (auto simp: prepareExamPayload_def Let_def split: if_splits)

lemma remote_mcq_essay_floored:
  "prepareExamPayload_remote rt form = Some payload \<Longrightarrow>
     (\<exists>m. mcq payload = Fin m \<and> 0 \<le> m) \<and> (\<exists>e. essay payload = Fin e \<and> 0 \<le> e)"
  using floored_nonneg [of "StringToNumber rt (rform_mcq form)"]
        floored_nonneg [of "StringToNumber rt (rform_essay form)"]
  by (auto simp: prepareExamPayload_remote_def Let_def split: if_splits)

lemma local_total_given:
  "prepareExamPayload rt form = Some payload \<Longrightarrow> form_total form \<noteq> [] \<Longrightarrow>
     isFinite (StringToNumber rt (form_total form)) \<Longrightarrow>
     total payload = Math_max (Fin 0) (StringToNumber rt (form_total form))"
  by (auto simp: prepareExamPayload_def Let_def split: if_splits)

lemma local_total_unparseable:
  "prepareExamPayload rt form = Some payload \<Longrightarrow> form_total form \<noteq> [] \<Longrightarrow>
     \<not> isFinite (StringToNumber rt (form_total form)) \<Longrightarrow>
     total payload = js_add (mcq payload) (essay payload)"
  by (cases "StringToNumber rt (form_mcq form)"; cases "StringToNumber rt (form_essay form)")
     (auto simp: prepareExamPayload_def Let_def round_overflow_def max_def split: if_splits)

text \<open>
  In the remote variant the total is the sum of the returned \<^verbatim>\<open>mcq\<close> and
  \<^verbatim>\<open>essay\<close>, for every form.
\<close>

lemma remote_total_is_sum:
  "prepareExamPayload_remote rt form = Some payload \<Longrightarrow>
     total payload = js_add (mcq payload) (essay payload)"
  by (cases "StringToNumber rt (rform_mcq form)"; cases "StringToNumber rt (rform_essay form)")
     (auto simp: prepareExamPayload_remote_def Let_def round_overflow_def max_def
        split: if_splits)

text \<open>
  Claim C6 says that, when the form has no total, the returned total is the sum of the
  returned \<^verbatim>\<open>mcq\<close> and \<^verbatim>\<open>essay\<close>, which are floored at 0.  The builder of the local
  variant adds the numbers as typed, before flooring them: for \<^verbatim>\<open>mcq = "-5"\<close>,
  \<^verbatim>\<open>essay = "10"\<close> and an empty total it returns \<^verbatim>\<open>mcq = 0\<close>, \<^verbatim>\<open>essay = 10\<close>
  and \<^verbatim>\<open>total = 5\<close>.
\<close>

theorem prepareExamPayload_total_from_raw:
  "prepareExamPayload demo_runtime negative_mcq_form =
     Some \<lparr>paper = ''Math P1'', mcq = Fin 0, essay = Fin 10, total = Fin 5, completion = Fin 50\<rparr>"
  by (simp add: prepareExamPayload_def negative_mcq_form_def demo_number_defs)


end
